theory Spec2Isabelle
  imports Main "HOL-Library.Sublist"
begin

section \<open>The node service of the jiva-csi driver (pkg/driver/node.go)\<close>

text \<open>
  The node server of the driver is a sequential program around a set of external
  collaborators: the Kubernetes client of the JivaVolume record, the iSCSI connector, the
  mounter, the file system and the network. The embedding keeps the functions of node.go
  that the four mutating calls (stage, unstage, publish, unpublish) and the statistics
  call run, each as a HOL function over
  \<^item> the set of volume IDs under transition (the only in-process state), and
  \<^item> a trace, the list of the calls issued so far to the collaborators, in order.
  What a collaborator answers is not decided by node.go: the record \<open>env\<close> below holds,
  for each collaborator call, an answer function whose first argument is the number of
  collaborator calls issued before this one. So the answers may change from one call to
  the next (the operator updates the record, a mount disappears), and nothing is assumed
  about them. Log lines and the text of error messages are left out; an error keeps its
  gRPC code, or the fact that it carries none.
\<close>

subsection \<open>Errors\<close>

text \<open>The gRPC codes that node.go passes to \<open>status.Error\<close> and \<open>status.Errorf\<close>.\<close>

datatype code =
    InvalidArgument | Aborted | FailedPrecondition | NotFound | Internal | Unimplemented

text \<open>
  An error returned by a collaborator. node.go only ever asks two questions about such
  an error: \<open>os.IsNotExist\<close> and \<open>errors.IsNotFound\<close>.
\<close>

datatype go_error = ErrNotExist | ErrNotFound | ErrOther

fun os_IsNotExist :: "go_error option \<Rightarrow> bool" where
  "os_IsNotExist (Some ErrNotExist) = True"
| "os_IsNotExist _ = False"

fun errors_IsNotFound :: "go_error \<Rightarrow> bool" where
  "errors_IsNotFound ErrNotFound = True"
| "errors_IsNotFound _ = False"

text \<open>
  An error returned by a function of node.go: built by \<open>status.Error\<close> with a code, built
  by \<open>fmt.Errorf\<close> (no code), or the error of a collaborator handed on as it is (no code).
\<close>

datatype error = status_Error code | fmt_Errorf | raw go_error

subsection \<open>The JivaVolume record and the protocol messages\<close>

text \<open>
  Modelled from the spec: the type \<open>JivaVolumePhase\<close> and its constant
  \<open>JivaVolumePhaseReady\<close> belong to the operator's API package, which is not part of the
  sources; the spec gives the phase as the enumeration Pending, Ready, other.
\<close>

datatype JivaVolumePhase = JivaVolumePhasePending | JivaVolumePhaseReady | JivaVolumePhaseOther string

type_synonym portal = "string \<times> int"
  \<comment> \<open>the pair that \<open>fmt.Sprintf("%v:%v", TargetIP, TargetPort)\<close> renders\<close>

record ISCSISpec =
  TargetIP :: string
  TargetPort :: int
  Iqn :: string

record MountInfo =
  FSType :: string
  DevicePath :: string
  Path :: string

record JivaVolume =
  Name :: string
  Spec_ISCSISpec :: ISCSISpec
  Spec_MountInfo :: MountInfo
  Status_Phase :: JivaVolumePhase
  Status_Status :: string
  Status_ReplicaStatuses :: "string list"

record Connector =
  VolumeName :: string
  TargetIqn :: string
  Lun :: int
  Interface :: string
  TargetPortals :: "portal list"
  DoDiscovery :: bool

record MountPoint =
  MountPoint_Device :: string
  MountPoint_Path :: string

record MountVolume =
  FsType :: string
  MountFlags :: "string list"

text \<open>
  The access type of a capability is a oneof: unset, block, or mount, the last with a
  pointer to a \<open>MountVolume\<close> that may be nil.
\<close>

datatype AccessType = AccessType_nil | VolumeCapability_Block | VolumeCapability_Mount "MountVolume option"

record VolumeCapability =
  GetAccessType :: AccessType
  GetAccessMode :: int

record VolumeUsage =
  Available :: int
  Total :: int
  Used :: int
  Unit :: int

record NodeStageVolumeRequest =
  stage_VolumeId :: string
  stage_StagingTargetPath :: string
  stage_VolumeCapability :: "VolumeCapability option"

record NodeUnstageVolumeRequest =
  unstage_VolumeId :: string
  unstage_StagingTargetPath :: string

record NodePublishVolumeRequest =
  publish_VolumeId :: string
  publish_StagingTargetPath :: string
  publish_TargetPath :: string
  publish_VolumeCapability :: "VolumeCapability option"
  publish_Readonly :: bool

record NodeUnpublishVolumeRequest =
  unpublish_VolumeId :: string
  unpublish_TargetPath :: string

record NodeGetVolumeStatsRequest =
  stats_VolumeId :: string
  stats_VolumePath :: string

text \<open>The generated getters are nil-safe: on a nil receiver they return the zero value.\<close>

fun GetMount :: "VolumeCapability option \<Rightarrow> MountVolume option" where
  "GetMount None = None"
| "GetMount (Some c) = (case GetAccessType c of VolumeCapability_Mount m \<Rightarrow> m | _ \<Rightarrow> None)"

fun GetFsType :: "MountVolume option \<Rightarrow> string" where
  "GetFsType None = []"
| "GetFsType (Some m) = FsType m"

fun GetMountFlags :: "MountVolume option \<Rightarrow> string list" where
  "GetMountFlags None = []"
| "GetMountFlags (Some m) = MountFlags m"

subsection \<open>Constants\<close>

definition FSTypeExt4 :: string where
  "FSTypeExt4 = ''ext4''"

definition defaultFsType :: string where
  "defaultFsType = FSTypeExt4"

definition defaultISCSILUN :: int where
  "defaultISCSILUN = 0"

definition defaultISCSIInterface :: string where
  "defaultISCSIInterface = ''default''"

subsection \<open>The collaborators\<close>

text \<open>The calls that node.go issues to its collaborators, with their arguments.\<close>

datatype event =
    time_Sleep nat
  | Call_client_Set
  | Call_client_GetJivaVolume string
  | Call_client_UpdateJivaVolume JivaVolume
  | Call_iscsi_Connect Connector
  | Call_iscsi_Disconnect string "portal list"
  | Call_net_Dial portal
  | Call_os_MkdirAll string nat
  | Call_os_Chmod string nat
  | Call_os_Remove string
  | Call_os_RemoveAll string
  | Call_mounter_List
  | Call_mounter_GetDeviceName string
  | Call_mounter_IsLikelyNotMountPoint string
  | Call_mounter_Unmount string
  | Call_mounter_FormatAndMount string string string "string list"
  | Call_mounter_Mount string string string "string list"
  | Call_mounter_ExistsPath string
  | Call_getStatistics string

text \<open>
  The answers of the collaborators, and the three things node.go takes from the rest of
  the repository: the function \<open>utils.StripName\<close>, the predicate
  \<open>isValidVolumeCapabilities\<close> and the value of the variable \<open>MaxRetryCount\<close>, which
  node.go declares and never assigns. A Go result
  \<open>(v, err)\<close> of which the code reads \<open>v\<close> only when \<open>err\<close> is nil is a sum; where the
  code reads both, it is a tuple with an optional error.
\<close>

record env =
  StripName :: "string \<Rightarrow> string"
  isValidVolumeCapabilities :: "VolumeCapability list \<Rightarrow> bool"
  MaxRetryCount :: int
  client_Set :: "nat \<Rightarrow> go_error option"
  client_GetJivaVolume :: "nat \<Rightarrow> string \<Rightarrow> go_error + JivaVolume"
  client_UpdateJivaVolume :: "nat \<Rightarrow> JivaVolume \<Rightarrow> go_error option"
  iscsi_Connect :: "nat \<Rightarrow> Connector \<Rightarrow> go_error + string"
  iscsi_Disconnect :: "nat \<Rightarrow> string \<Rightarrow> portal list \<Rightarrow> go_error option"
  net_Dial :: "nat \<Rightarrow> portal \<Rightarrow> go_error option"
  os_MkdirAll :: "nat \<Rightarrow> string \<Rightarrow> go_error option"
  os_Chmod :: "nat \<Rightarrow> string \<Rightarrow> go_error option"
  os_Remove :: "nat \<Rightarrow> string \<Rightarrow> go_error option"
  os_RemoveAll :: "nat \<Rightarrow> string \<Rightarrow> go_error option"
  mounter_List :: "nat \<Rightarrow> go_error + MountPoint list"
  mounter_GetDeviceName :: "nat \<Rightarrow> string \<Rightarrow> string \<times> int \<times> go_error option"
  mounter_IsLikelyNotMountPoint :: "nat \<Rightarrow> string \<Rightarrow> bool \<times> go_error option"
  mounter_Unmount :: "nat \<Rightarrow> string \<Rightarrow> go_error option"
  mounter_FormatAndMount :: "nat \<Rightarrow> string \<Rightarrow> string \<Rightarrow> string \<Rightarrow> string list \<Rightarrow> go_error option"
  mounter_Mount :: "nat \<Rightarrow> string \<Rightarrow> string \<Rightarrow> string \<Rightarrow> string list \<Rightarrow> go_error option"
  mounter_ExistsPath :: "nat \<Rightarrow> string \<Rightarrow> go_error + bool"
  getStatistics :: "nat \<Rightarrow> string \<Rightarrow> go_error + VolumeUsage list"

text \<open>
  A call to a collaborator: the answer is the one for the current length of the trace,
  and the call is appended to the trace.
\<close>

definition call :: "(nat \<Rightarrow> 'a) \<Rightarrow> event \<Rightarrow> event list \<Rightarrow> 'a \<times> event list" where
  "call answer ev t = (answer (length t), t @ [ev])"

subsection \<open>The state of the node server\<close>

text \<open>
  Modelled from the spec: the type \<open>request.Transition\<close> with its methods \<open>Insert\<close> and
  \<open>Delete\<close> is not part of the sources. The spec describes it as a set of volume IDs
  whose \<open>acquire(id)\<close> atomically tests and inserts and returns whether the acquisition
  succeeded, and whose \<open>release(id)\<close> removes the id unconditionally.
\<close>

definition Insert :: "string \<Rightarrow> string set \<Rightarrow> bool \<times> string set" where
  "Insert volID T = (if volID \<in> T then (False, T) else (True, insert volID T))"

definition Delete :: "string \<Rightarrow> string set \<Rightarrow> string set" where
  "Delete volID T = T - {volID}"

record node =
  volumeTransition :: "string set"
  trace :: "event list"

subsection \<open>The mount state inspector\<close>

text \<open>\<open>strings.Contains s substr\<close>: \<open>substr\<close> occurs in \<open>s\<close> as a contiguous run of bytes.\<close>

fun strings_Contains :: "string \<Rightarrow> string \<Rightarrow> bool" where
  "strings_Contains [] substr = (substr = [])"
| "strings_Contains (c # cs) substr = (prefix substr (c # cs) \<or> strings_Contains cs substr)"

text \<open>
  The loop of \<open>isAlreadyMounted\<close> over the mount list, filling the Go map
  \<open>currentMounts\<close> of type \<open>map[string]bool\<close>.
\<close>

definition currentMounts_of :: "string \<Rightarrow> MountPoint list \<Rightarrow> (string \<rightharpoonup> bool)" where
  "currentMounts_of volID mountList =
     fold (\<lambda>mntInfo currentMounts.
             if strings_Contains (MountPoint_Path mntInfo) volID
             then currentMounts(MountPoint_Path mntInfo \<mapsto> True)
             else currentMounts)
          mountList Map.empty"

definition isAlreadyMounted :: "env \<Rightarrow> string \<Rightarrow> string \<Rightarrow> event list \<Rightarrow> error option \<times> event list" where
  "isAlreadyMounted E volID path t =
     (case call (mounter_List E) Call_mounter_List t of
        (Inl err, t1) \<Rightarrow> (Some fmt_Errorf, t1)
      | (Inr mountList, t1) \<Rightarrow>
          (let currentMounts = currentMounts_of volID mountList in
           if card (dom currentMounts) > 1 then
             (if currentMounts path = Some True then (None, t1)
              else (Some fmt_Errorf, t1))
           else (None, t1)))"

subsection \<open>Volume statistics\<close>

definition NodeGetVolumeStats ::
  "env \<Rightarrow> NodeGetVolumeStatsRequest \<Rightarrow> node \<Rightarrow> (error + VolumeUsage list) \<times> node" where
  "NodeGetVolumeStats E req ns =
     (let volumeID = stats_VolumeId req in
      if volumeID = [] then (Inl (status_Error InvalidArgument), ns)
      else
        let volumePath = stats_VolumePath req in
        if volumePath = [] then (Inl (status_Error InvalidArgument), ns)
        else
          (case call (\<lambda>n. mounter_ExistsPath E n volumePath) (Call_mounter_ExistsPath volumePath) (trace ns) of
             (Inl err, t1) \<Rightarrow> (Inl (status_Error Internal), ns\<lparr>trace := t1\<rparr>)
           | (Inr mounted, t1) \<Rightarrow>
               if \<not> mounted then (Inl (status_Error NotFound), ns\<lparr>trace := t1\<rparr>)
               else
                 (case call (\<lambda>n. getStatistics E n volumePath) (Call_getStatistics volumePath) t1 of
                    (Inl err, t2) \<Rightarrow> (Inl (status_Error Internal), ns\<lparr>trace := t2\<rparr>)
                  | (Inr stats, t2) \<Rightarrow> (Inr stats, ns\<lparr>trace := t2\<rparr>))))"

subsection \<open>The readiness and reachability polls\<close>

definition doesVolumeExist :: "env \<Rightarrow> string \<Rightarrow> event list \<Rightarrow> (error + JivaVolume) \<times> event list" where
  "doesVolumeExist E volID0 t =
     (let volID = StripName E volID0 in
      case call (client_Set E) Call_client_Set t of
        (Some err, t1) \<Rightarrow> (Inl (status_Error Internal), t1)
      | (None, t1) \<Rightarrow>
          (case call (\<lambda>n. client_GetJivaVolume E n volID) (Call_client_GetJivaVolume volID) t1 of
             (Inl err, t2) \<Rightarrow>
               if errors_IsNotFound err then (Inl (status_Error NotFound), t2)
               else (Inl (status_Error Internal), t2)
           | (Inr inst, t2) \<Rightarrow> (Inr inst, t2)))"

text \<open>
  The loop of \<open>waitForVolumeToBeReady\<close>, with its two variables \<open>retry\<close> and
  \<open>sleepInterval\<close> (in seconds) as arguments. The three branches that only differ in the
  warning they log are one branch here. The counter \<open>retry\<close> is a Go \<open>int\<close>, which
  wraps around; here it is an unbounded integer. The two agree as long as
  \<open>MaxRetryCount\<close> is below the largest \<open>int\<close>, since the counter then never passes
  \<open>MaxRetryCount + 1\<close>: \<open>waitForVolumeToBeReady_wrapping\<close> below is the loop with the
  counter as Go has it, and the statements about the poll carry that bound.
\<close>

function waitForVolumeToBeReady_loop ::
  "env \<Rightarrow> string \<Rightarrow> int \<Rightarrow> nat \<Rightarrow> event list \<Rightarrow> (error + JivaVolume) \<times> event list" where
  "waitForVolumeToBeReady_loop E volID retry sleepInterval t =
     (case doesVolumeExist E volID (t @ [time_Sleep sleepInterval]) of
        (Inl err, t1) \<Rightarrow> (Inl err, t1)
      | (Inr inst, t1) \<Rightarrow>
          if Status_Phase inst = JivaVolumePhaseReady \<and> Status_Status inst = ''RW''
          then (Inr inst, t1)
          else if retry + 1 \<le> MaxRetryCount E
          then waitForVolumeToBeReady_loop E volID (retry + 1) 5 t1
          else (Inl fmt_Errorf, t1))"
  by pat_completeness auto
termination
  by (relation "measure (\<lambda>(E, volID, retry, sleepInterval, t). nat (MaxRetryCount E + 1 - retry))") auto

definition waitForVolumeToBeReady :: "env \<Rightarrow> string \<Rightarrow> event list \<Rightarrow> (error + JivaVolume) \<times> event list" where
  "waitForVolumeToBeReady E volID t = waitForVolumeToBeReady_loop E volID 0 0 t"

text \<open>
  The same loop with the counter of Go on a 64-bit platform: \<open>retry++\<close> at the largest
  \<open>int\<close> gives the smallest. With \<open>MaxRetryCount\<close> at the largest \<open>int\<close> the test
  \<open>retry <= MaxRetryCount\<close> then never fails, and on a record that never gets ready the
  loop does not return: the result is an option, and not returning is \<open>None\<close>.
\<close>

definition MaxInt :: int where
  "MaxInt = 2 ^ 63 - 1"

definition wrap_int :: "int \<Rightarrow> int" where
  "wrap_int x = (x + 2 ^ 63) mod 2 ^ 64 - 2 ^ 63"

partial_function (option) waitForVolumeToBeReady_wrapping ::
  "env \<Rightarrow> string \<Rightarrow> int \<Rightarrow> nat \<Rightarrow> event list \<Rightarrow> ((error + JivaVolume) \<times> event list) option" where
  "waitForVolumeToBeReady_wrapping E volID retry sleepInterval t =
     (case doesVolumeExist E volID (t @ [time_Sleep sleepInterval]) of
        (Inl err, t1) \<Rightarrow> Some (Inl err, t1)
      | (Inr inst, t1) \<Rightarrow>
          if Status_Phase inst = JivaVolumePhaseReady \<and> Status_Status inst = ''RW''
          then Some (Inr inst, t1)
          else if wrap_int (retry + 1) \<le> MaxRetryCount E
          then waitForVolumeToBeReady_wrapping E volID (wrap_int (retry + 1)) 5 t1
          else Some (Inl fmt_Errorf, t1))"

text \<open>
  The counter \<open>retries\<close> of the reachability poll starts at 0 and the loop ends as soon
  as it reaches \<open>MaxRetryCount\<close>, so it never passes the largest \<open>int\<close>: the unbounded
  integer is exact.
\<close>

function waitForVolumeToBeReachable_loop ::
  "env \<Rightarrow> portal \<Rightarrow> int \<Rightarrow> event list \<Rightarrow> error option \<times> event list" where
  "waitForVolumeToBeReachable_loop E targetPortal retries t =
     (case call (\<lambda>n. net_Dial E n targetPortal) (Call_net_Dial targetPortal) t of
        (None, t1) \<Rightarrow> (None, t1)
      | (Some err, t1) \<Rightarrow>
          if retries + 1 \<ge> MaxRetryCount E
          then (Some fmt_Errorf, t1 @ [time_Sleep 2])
          else waitForVolumeToBeReachable_loop E targetPortal (retries + 1) (t1 @ [time_Sleep 2]))"
  by pat_completeness auto
termination
  by (relation "measure (\<lambda>(E, targetPortal, retries, t). nat (MaxRetryCount E - retries))") auto

definition waitForVolumeToBeReachable :: "env \<Rightarrow> portal \<Rightarrow> event list \<Rightarrow> error option \<times> event list" where
  "waitForVolumeToBeReachable E targetPortal t = waitForVolumeToBeReachable_loop E targetPortal 0 t"

subsection \<open>Staging\<close>

definition attachDisk :: "env \<Rightarrow> JivaVolume \<Rightarrow> event list \<Rightarrow> (error + string) \<times> event list" where
  "attachDisk E inst t =
     (let connector = \<lparr>VolumeName = Name inst,
                       TargetIqn = Iqn (Spec_ISCSISpec inst),
                       Lun = defaultISCSILUN,
                       Interface = defaultISCSIInterface,
                       TargetPortals = [(TargetIP (Spec_ISCSISpec inst), TargetPort (Spec_ISCSISpec inst))],
                       DoDiscovery = True\<rparr> in
      case call (\<lambda>n. iscsi_Connect E n connector) (Call_iscsi_Connect connector) t of
        (Inl err, t1) \<Rightarrow> (Inl (raw err), t1)
      | (Inr devicePath, t1) \<Rightarrow>
          if devicePath = [] then (Inl fmt_Errorf, t1) else (Inr devicePath, t1))"

record nodeStageRequest =
  stagingPath :: string
  fsType :: string
  volumeID :: string

definition validateStagingReq :: "env \<Rightarrow> NodeStageVolumeRequest \<Rightarrow> error + nodeStageRequest" where
  "validateStagingReq E req =
     (if length (stage_VolumeId req) = 0 then Inl (status_Error InvalidArgument)
      else
        let volID = StripName E (stage_VolumeId req) in
        case stage_VolumeCapability req of
          None \<Rightarrow> Inl (status_Error InvalidArgument)
        | Some volCap \<Rightarrow>
            if \<not> isValidVolumeCapabilities E [volCap] then Inl (status_Error InvalidArgument)
            else
              (case GetMount (Some volCap) of
                 None \<Rightarrow> Inl (status_Error InvalidArgument)
               | Some mount \<Rightarrow>
                   let fsType0 = GetFsType (Some mount);
                       fsType1 = (if length fsType0 = 0 then defaultFsType else fsType0) in
                   if length (stage_StagingTargetPath req) = 0 then Inl (status_Error InvalidArgument)
                   else Inr \<lparr>stagingPath = stage_StagingTargetPath req,
                             fsType = fsType1,
                             volumeID = volID\<rparr>))"

text \<open>The permission bits 0750 are 488.\<close>

definition formatAndMount ::
  "env \<Rightarrow> NodeStageVolumeRequest \<Rightarrow> string \<Rightarrow> event list \<Rightarrow> error option \<times> event list" where
  "formatAndMount E req devicePath t =
     (let mntPath = stage_StagingTargetPath req in
      case call (\<lambda>n. mounter_IsLikelyNotMountPoint E n mntPath) (Call_mounter_IsLikelyNotMountPoint mntPath) t of
        ((notMnt, err), t1) \<Rightarrow>
          (case (if err \<noteq> None \<and> \<not> os_IsNotExist err
                 then (case call (\<lambda>n. os_MkdirAll E n mntPath) (Call_os_MkdirAll mntPath 488) t1 of
                         (Some e, t2) \<Rightarrow> (Some (raw e), t2)
                       | (None, t2) \<Rightarrow> (None, t2))
                 else (None, t1)) of
             (Some e, t2) \<Rightarrow> (Some e, t2)
           | (None, t2) \<Rightarrow>
               if \<not> notMnt then (None, t2)
               else
                 (let fsType0 = GetFsType (GetMount (stage_VolumeCapability req));
                      mountFlags = GetMountFlags (GetMount (stage_VolumeCapability req));
                      options = [] @ mountFlags in
                  case call (\<lambda>n. mounter_FormatAndMount E n devicePath mntPath fsType0 options)
                            (Call_mounter_FormatAndMount devicePath mntPath fsType0 options) t2 of
                    (Some e, t3) \<Rightarrow> (Some (raw e), t3)
                  | (None, t3) \<Rightarrow> (None, t3))))"

text \<open>
  The part of \<open>NodeStageVolume\<close> that runs between the acquisition of the guard and the
  deferred \<open>Delete\<close>.
\<close>

definition NodeStageVolume_locked ::
  "env \<Rightarrow> NodeStageVolumeRequest \<Rightarrow> nodeStageRequest \<Rightarrow> event list \<Rightarrow> (error + unit) \<times> event list" where
  "NodeStageVolume_locked E req reqParam t =
     (case waitForVolumeToBeReady E (volumeID reqParam) t of
        (Inl err, t1) \<Rightarrow> (Inl (status_Error FailedPrecondition), t1)
      | (Inr inst, t1) \<Rightarrow>
      (case isAlreadyMounted E (volumeID reqParam) (stagingPath reqParam) t1 of
        (Some err, t2) \<Rightarrow> (Inl err, t2)
      | (None, t2) \<Rightarrow>
      (case waitForVolumeToBeReachable E (TargetIP (Spec_ISCSISpec inst), TargetPort (Spec_ISCSISpec inst)) t2 of
        (Some err, t3) \<Rightarrow> (Inl (status_Error FailedPrecondition), t3)
      | (None, t3) \<Rightarrow>
      (case attachDisk E inst t3 of
        (Inl err, t4) \<Rightarrow> (Inl (status_Error Internal), t4)
      | (Inr devicePath, t4) \<Rightarrow>
      (case call (\<lambda>n. client_GetJivaVolume E n (volumeID reqParam))
                 (Call_client_GetJivaVolume (volumeID reqParam)) t4 of
        (Inl err, t5) \<Rightarrow> (Inl (raw err), t5)
      | (Inr inst1, t5) \<Rightarrow>
      (let inst2 = inst1\<lparr>Spec_MountInfo := \<lparr>FSType = fsType reqParam,
                                             DevicePath = devicePath,
                                             Path = stagingPath reqParam\<rparr>\<rparr> in
       case call (\<lambda>n. client_UpdateJivaVolume E n inst2) (Call_client_UpdateJivaVolume inst2) t5 of
        (Some err, t6) \<Rightarrow> (Inl (status_Error Internal), t6)
      | (None, t6) \<Rightarrow>
      (case call (\<lambda>n. os_MkdirAll E n (stagingPath reqParam)) (Call_os_MkdirAll (stagingPath reqParam) 488) t6 of
        (Some err, t7) \<Rightarrow> (Inl (status_Error Internal), t7)
      | (None, t7) \<Rightarrow>
      (case formatAndMount E req (DevicePath (Spec_MountInfo inst2)) t7 of
        (Some err, t8) \<Rightarrow> (Inl (status_Error Internal), t8)
      | (None, t8) \<Rightarrow> (Inr (), t8)))))))))"

definition NodeStageVolume :: "env \<Rightarrow> NodeStageVolumeRequest \<Rightarrow> node \<Rightarrow> (error + unit) \<times> node" where
  "NodeStageVolume E req ns =
     (case validateStagingReq E req of
        Inl err \<Rightarrow> (Inl err, ns)
      | Inr reqParam \<Rightarrow>
          (case Insert (volumeID reqParam) (volumeTransition ns) of
             (False, T) \<Rightarrow> (Inl (status_Error Aborted), ns)
           | (True, T) \<Rightarrow>
               (case NodeStageVolume_locked E req reqParam (trace ns) of
                  (res, t1) \<Rightarrow>
                    (res, \<lparr>volumeTransition = Delete (volumeID reqParam) T, trace = t1\<rparr>))))"

subsection \<open>Unstaging\<close>

definition NodeUnstageVolume_locked ::
  "env \<Rightarrow> string \<Rightarrow> string \<Rightarrow> event list \<Rightarrow> (error + unit) \<times> event list" where
  "NodeUnstageVolume_locked E volID target t =
     (case call (\<lambda>n. mounter_GetDeviceName E n target) (Call_mounter_GetDeviceName target) t of
        ((dev, refCount, Some err), t1) \<Rightarrow> (Inl (status_Error Internal), t1)
      | ((dev, refCount, None), t1) \<Rightarrow>
          if refCount = 0 then (Inr (), t1)
          else
      (case call (\<lambda>n. mounter_Unmount E n target) (Call_mounter_Unmount target) t1 of
        (Some err, t2) \<Rightarrow> (Inl (status_Error Internal), t2)
      | (None, t2) \<Rightarrow>
      (case doesVolumeExist E volID t2 of
        (Inl err, t3) \<Rightarrow> (Inl err, t3)
      | (Inr inst, t3) \<Rightarrow>
      (let portals = [(TargetIP (Spec_ISCSISpec inst), TargetPort (Spec_ISCSISpec inst))] in
       case call (\<lambda>n. iscsi_Disconnect E n (Iqn (Spec_ISCSISpec inst)) portals)
                 (Call_iscsi_Disconnect (Iqn (Spec_ISCSISpec inst)) portals) t3 of
        (Some err, t4) \<Rightarrow> (Inl (status_Error Internal), t4)
      | (None, t4) \<Rightarrow>
      (case call (\<lambda>n. os_RemoveAll E n (Path (Spec_MountInfo inst)))
                 (Call_os_RemoveAll (Path (Spec_MountInfo inst))) t4 of
        (Some err, t5) \<Rightarrow> (Inl (status_Error Internal), t5)
      | (None, t5) \<Rightarrow> (Inr (), t5))))))"

definition NodeUnstageVolume :: "env \<Rightarrow> NodeUnstageVolumeRequest \<Rightarrow> node \<Rightarrow> (error + unit) \<times> node" where
  "NodeUnstageVolume E req ns =
     (let volID = unstage_VolumeId req in
      if volID = [] then (Inl (status_Error InvalidArgument), ns)
      else
        let target = unstage_StagingTargetPath req in
        if length target = 0 then (Inl (status_Error InvalidArgument), ns)
        else
          (case Insert volID (volumeTransition ns) of
             (False, T) \<Rightarrow> (Inl (status_Error Aborted), ns)
           | (True, T) \<Rightarrow>
               (case NodeUnstageVolume_locked E volID target (trace ns) of
                  (res, t1) \<Rightarrow> (res, \<lparr>volumeTransition = Delete volID T, trace = t1\<rparr>))))"

subsection \<open>Publishing\<close>

fun hasOption :: "string list \<Rightarrow> string \<Rightarrow> bool" where
  "hasOption [] opt = False"
| "hasOption (x # options) opt = (if x = opt then True else hasOption options opt)"

text \<open>
  \<open>nodePublishVolumeForFileSystem\<close> takes the field \<open>Mount\<close> of its argument \<open>mode\<close>, a
  pointer that may be nil.
\<close>

definition nodePublishVolumeForFileSystem ::
  "env \<Rightarrow> NodePublishVolumeRequest \<Rightarrow> string list \<Rightarrow> MountVolume option \<Rightarrow> event list
     \<Rightarrow> error option \<times> event list" where
  "nodePublishVolumeForFileSystem E req mountOptions0 mode_Mount t =
     (let target = publish_TargetPath req;
          source = publish_StagingTargetPath req;
          mountOptions =
            (case mode_Mount of
               None \<Rightarrow> mountOptions0
             | Some m \<Rightarrow>
                 fold (\<lambda>f opts. if \<not> hasOption opts f then opts @ [f] else opts)
                      (MountFlags m) mountOptions0) in
      case call (\<lambda>n. os_MkdirAll E n target) (Call_os_MkdirAll target 0) t of
        (Some err, t1) \<Rightarrow> (Some (status_Error Internal), t1)
      | (None, t1) \<Rightarrow>
      (case call (\<lambda>n. os_Chmod E n target) (Call_os_Chmod target 0) t1 of
        (Some err, t2) \<Rightarrow> (Some (status_Error Internal), t2)
      | (None, t2) \<Rightarrow>
      (let fsType0 = GetFsType mode_Mount;
           fsType1 = (if length fsType0 = 0 then defaultFsType else fsType0) in
       case call (\<lambda>n. mounter_Mount E n source target fsType1 mountOptions)
                 (Call_mounter_Mount source target fsType1 mountOptions) t2 of
        (Some err, t3) \<Rightarrow>
          (case call (\<lambda>n. os_Remove E n target) (Call_os_Remove target) t3 of
             (Some removeErr, t4) \<Rightarrow> (Some (status_Error Internal), t4)
           | (None, t4) \<Rightarrow> (Some (status_Error Internal), t4))
      | (None, t3) \<Rightarrow> (None, t3))))"

definition NodePublishVolume_locked ::
  "env \<Rightarrow> NodePublishVolumeRequest \<Rightarrow> VolumeCapability \<Rightarrow> event list \<Rightarrow> (error + unit) \<times> event list" where
  "NodePublishVolume_locked E req volCap t =
     (case isAlreadyMounted E (publish_VolumeId req) (publish_TargetPath req) t of
        (Some err, t1) \<Rightarrow> (Inl err, t1)
      | (None, t1) \<Rightarrow>
          (let mountOptions = [''bind''] @ (if publish_Readonly req then [''ro''] else []) in
           case GetAccessType volCap of
             VolumeCapability_Block \<Rightarrow> (Inl (status_Error Unimplemented), t1)
           | VolumeCapability_Mount mode_Mount \<Rightarrow>
               (case nodePublishVolumeForFileSystem E req mountOptions mode_Mount t1 of
                  (Some err, t2) \<Rightarrow> (Inl err, t2)
                | (None, t2) \<Rightarrow> (Inr (), t2))
           | AccessType_nil \<Rightarrow> (Inr (), t1)))"

definition NodePublishVolume :: "env \<Rightarrow> NodePublishVolumeRequest \<Rightarrow> node \<Rightarrow> (error + unit) \<times> node" where
  "NodePublishVolume E req ns =
     (let volumeID0 = publish_VolumeId req in
      if length volumeID0 = 0 then (Inl (status_Error InvalidArgument), ns)
      else
        let target = publish_TargetPath req in
        if length target = 0 then (Inl (status_Error InvalidArgument), ns)
        else
          (case publish_VolumeCapability req of
             None \<Rightarrow> (Inl (status_Error InvalidArgument), ns)
           | Some volCap \<Rightarrow>
               if \<not> isValidVolumeCapabilities E [volCap] then (Inl (status_Error InvalidArgument), ns)
               else
                 (case Insert volumeID0 (volumeTransition ns) of
                    (False, T) \<Rightarrow> (Inl (status_Error Aborted), ns)
                  | (True, T) \<Rightarrow>
                      (case NodePublishVolume_locked E req volCap (trace ns) of
                         (res, t1) \<Rightarrow> (res, \<lparr>volumeTransition = Delete volumeID0 T, trace = t1\<rparr>)))))"

subsection \<open>Unpublishing\<close>

definition unmount :: "env \<Rightarrow> string \<Rightarrow> string \<Rightarrow> event list \<Rightarrow> error option \<times> event list" where
  "unmount E volumeID0 target t =
     (case call (\<lambda>n. mounter_IsLikelyNotMountPoint E n target) (Call_mounter_IsLikelyNotMountPoint target) t of
        ((notMnt, err), t1) \<Rightarrow>
          if (err = None \<and> notMnt) \<or> os_IsNotExist err then (None, t1)
          else
            (case call (\<lambda>n. mounter_Unmount E n target) (Call_mounter_Unmount target) t1 of
               (Some e, t2) \<Rightarrow> (Some (status_Error Internal), t2)
             | (None, t2) \<Rightarrow> (None, t2)))"

definition NodeUnpublishVolume :: "env \<Rightarrow> NodeUnpublishVolumeRequest \<Rightarrow> node \<Rightarrow> (error + unit) \<times> node" where
  "NodeUnpublishVolume E req ns =
     (let volumeID0 = unpublish_VolumeId req in
      if length volumeID0 = 0 then (Inl (status_Error InvalidArgument), ns)
      else
        let target = unpublish_TargetPath req in
        if length target = 0 then (Inl (status_Error InvalidArgument), ns)
        else
          (case Insert volumeID0 (volumeTransition ns) of
             (False, T) \<Rightarrow> (Inl (status_Error Aborted), ns)
           | (True, T) \<Rightarrow>
               (case unmount E volumeID0 target (trace ns) of
                  (Some err, t1) \<Rightarrow> (Inl err, \<lparr>volumeTransition = Delete volumeID0 T, trace = t1\<rparr>)
                | (None, t1) \<Rightarrow> (Inr (), \<lparr>volumeTransition = Delete volumeID0 T, trace = t1\<rparr>))))"

subsection \<open>The calls of one status check\<close>

text \<open>
  One iteration of the readiness poll that gets as far as reading the record issues
  three calls: the sleep, the set-up of the client and the read of the record under the
  stripped volume ID.
\<close>

definition status_check :: "env \<Rightarrow> string \<Rightarrow> nat \<Rightarrow> event list" where
  "status_check E volID delay =
     [time_Sleep delay, Call_client_Set, Call_client_GetJivaVolume (StripName E volID)]"

subsection \<open>Example inputs\<close>

text \<open>
  Modelled from the spec: \<open>utils.StripName\<close> is not part of the sources, and the spec says
  of it that request-supplied IDs are normalized, the name prefix stripped. The prefix
  itself is not given; the examples take \<open>pvc-\<close>, the prefix of the volume names that
  Kubernetes generates.
\<close>

definition StripPrefix :: "string \<Rightarrow> string \<Rightarrow> string" where
  "StripPrefix pfx name = (if prefix pfx name then drop (length pfx) name else name)"

definition vol_v1 :: JivaVolume where
  "vol_v1 = \<lparr>Name = ''v1'',
             Spec_ISCSISpec = \<lparr>TargetIP = ''10.0.0.7'', TargetPort = 3260, Iqn = ''iqn.2016-09.com.openebs.jiva:v1''\<rparr>,
             Spec_MountInfo = \<lparr>FSType = [], DevicePath = [], Path = []\<rparr>,
             Status_Phase = JivaVolumePhaseReady,
             Status_Status = ''RW'',
             Status_ReplicaStatuses = []\<rparr>"

definition usage_v1 :: VolumeUsage where
  "usage_v1 = \<lparr>Available = 600, Total = 1000, Used = 400, Unit = 1\<rparr>"

text \<open>
  A node on which every collaborator succeeds: the record of volume \<open>v1\<close> is Ready and
  RW, nothing is mounted, and the connector returns the device \<open>/dev/sdX\<close>.
\<close>

definition env_ok :: env where
  "env_ok = \<lparr>StripName = StripPrefix ''pvc-'',
             isValidVolumeCapabilities = (\<lambda>caps. True),
             MaxRetryCount = 3,
             client_Set = (\<lambda>n. None),
             client_GetJivaVolume = (\<lambda>n volID. if volID = ''v1'' then Inr vol_v1 else Inl ErrNotFound),
             client_UpdateJivaVolume = (\<lambda>n inst. None),
             iscsi_Connect = (\<lambda>n connector. Inr ''/dev/sdX''),
             iscsi_Disconnect = (\<lambda>n iqn portals. None),
             net_Dial = (\<lambda>n targetPortal. None),
             os_MkdirAll = (\<lambda>n path. None),
             os_Chmod = (\<lambda>n path. None),
             os_Remove = (\<lambda>n path. None),
             os_RemoveAll = (\<lambda>n path. None),
             mounter_List = (\<lambda>n. Inr []),
             mounter_GetDeviceName = (\<lambda>n path. ([], 0, None)),
             mounter_IsLikelyNotMountPoint = (\<lambda>n path. (True, None)),
             mounter_Unmount = (\<lambda>n path. None),
             mounter_FormatAndMount = (\<lambda>n source target fstype options. None),
             mounter_Mount = (\<lambda>n source target fstype options. None),
             mounter_ExistsPath = (\<lambda>n path. Inr True),
             getStatistics = (\<lambda>n path. Inr [usage_v1])\<rparr>"

text \<open>The same node with a record that stays in read-only state.\<close>

definition env_not_ready :: env where
  "env_not_ready =
     env_ok\<lparr>client_GetJivaVolume := (\<lambda>n volID. Inr (vol_v1\<lparr>Status_Status := ''RO''\<rparr>))\<rparr>"

text \<open>The same node with a record store whose reads fail.\<close>

definition env_store_down :: env where
  "env_store_down = env_ok\<lparr>client_GetJivaVolume := (\<lambda>n volID. Inl ErrOther)\<rparr>"

text \<open>The same node with a client whose set-up fails.\<close>

definition env_client_down :: env where
  "env_client_down = env_ok\<lparr>client_Set := (\<lambda>n. Some ErrOther)\<rparr>"

text \<open>
  The same node with a record that is read-only at the first status check of a stage
  request on a fresh node, and missing from then on.
\<close>

definition env_record_vanishes :: env where
  "env_record_vanishes =
     env_ok\<lparr>client_GetJivaVolume :=
              (\<lambda>n volID. if n < 3 then Inr (vol_v1\<lparr>Status_Status := ''RO''\<rparr>) else Inl ErrNotFound)\<rparr>"

text \<open>The same node with a record store whose writes fail.\<close>

definition env_update_fails :: env where
  "env_update_fails = env_ok\<lparr>client_UpdateJivaVolume := (\<lambda>n inst. Some ErrOther)\<rparr>"

text \<open>The same node with two mounts whose paths contain \<open>v1\<close>.\<close>

definition env_two_mounts :: env where
  "env_two_mounts =
     env_ok\<lparr>mounter_List := (\<lambda>n. Inr [\<lparr>MountPoint_Device = ''/dev/sdX'', MountPoint_Path = ''/staging/v1''\<rparr>,
                                       \<lparr>MountPoint_Device = ''/dev/sdX'', MountPoint_Path = ''/pods/a/v1''\<rparr>])\<rparr>"

text \<open>
  The record of volume \<open>v1\<close> after a staging, and the same node with that record and
  with the volume mounted during the first two calls to the collaborators only: an
  unstage or unpublish request on a fresh node finds the mount and unmounts it with its
  second call, and a later request finds no mount.
\<close>

definition vol_v1_staged :: JivaVolume where
  "vol_v1_staged =
     vol_v1\<lparr>Spec_MountInfo := \<lparr>FSType = ''ext4'', DevicePath = ''/dev/sdX'', Path = ''/staging/v1''\<rparr>\<rparr>"

definition env_mounted_once :: env where
  "env_mounted_once =
     env_ok\<lparr>client_GetJivaVolume := (\<lambda>n volID. if volID = ''v1'' then Inr vol_v1_staged else Inl ErrNotFound),
            mounter_GetDeviceName := (\<lambda>n path. if n < 2 then (''/dev/sdX'', 1, None) else ([], 0, None)),
            mounter_IsLikelyNotMountPoint := (\<lambda>n path. if n < 2 then (False, None) else (True, None))\<rparr>"

definition mount_cap :: "string \<Rightarrow> VolumeCapability" where
  "mount_cap fs = \<lparr>GetAccessType = VolumeCapability_Mount (Some \<lparr>FsType = fs, MountFlags = []\<rparr>),
                   GetAccessMode = 1\<rparr>"

definition stage_req :: "string \<Rightarrow> string \<Rightarrow> NodeStageVolumeRequest" where
  "stage_req volID path =
     \<lparr>stage_VolumeId = volID, stage_StagingTargetPath = path,
      stage_VolumeCapability = Some (mount_cap [])\<rparr>"

definition unstage_req :: "string \<Rightarrow> string \<Rightarrow> NodeUnstageVolumeRequest" where
  "unstage_req volID path = \<lparr>unstage_VolumeId = volID, unstage_StagingTargetPath = path\<rparr>"

definition publish_req :: "string \<Rightarrow> string \<Rightarrow> NodePublishVolumeRequest" where
  "publish_req volID path =
     \<lparr>publish_VolumeId = volID, publish_StagingTargetPath = ''/staging/v1'',
      publish_TargetPath = path, publish_VolumeCapability = Some (mount_cap []),
      publish_Readonly = False\<rparr>"

definition unpublish_req :: "string \<Rightarrow> string \<Rightarrow> NodeUnpublishVolumeRequest" where
  "unpublish_req volID path = \<lparr>unpublish_VolumeId = volID, unpublish_TargetPath = path\<rparr>"

definition stats_req :: "string \<Rightarrow> string \<Rightarrow> NodeGetVolumeStatsRequest" where
  "stats_req volID path = \<lparr>stats_VolumeId = volID, stats_VolumePath = path\<rparr>"

text \<open>A node with no operation in progress and no call issued yet.\<close>

definition node0 :: node where
  "node0 = \<lparr>volumeTransition = {}, trace = []\<rparr>"

section \<open>Properties\<close>

text \<open>
  The two polls are unfolded by hand where a proof needs it: their equations are
  recursive.
\<close>

declare waitForVolumeToBeReady_loop.simps [simp del]
declare waitForVolumeToBeReachable_loop.simps [simp del]

lemmas env_examples = env_ok_def env_not_ready_def env_store_down_def env_update_fails_def
  env_client_down_def env_record_vanishes_def
  env_two_mounts_def env_mounted_once_def vol_v1_def vol_v1_staged_def usage_v1_def StripPrefix_def
  mount_cap_def stage_req_def unstage_req_def publish_req_def unpublish_req_def stats_req_def node0_def

text \<open>The definitions that the evaluation of a request on an example node unfolds.\<close>

lemmas common_eval = Insert_def Delete_def call_def Let_def
  defaultFsType_def FSTypeExt4_def defaultISCSILUN_def defaultISCSIInterface_def
  doesVolumeExist_def isAlreadyMounted_def currentMounts_of_def

lemmas stage_eval = NodeStageVolume_def validateStagingReq_def NodeStageVolume_locked_def
  waitForVolumeToBeReady_def waitForVolumeToBeReady_loop.simps
  waitForVolumeToBeReachable_def waitForVolumeToBeReachable_loop.simps
  attachDisk_def formatAndMount_def

lemmas unstage_eval = NodeUnstageVolume_def NodeUnstageVolume_locked_def

lemmas publish_eval = NodePublishVolume_def NodePublishVolume_locked_def
  nodePublishVolumeForFileSystem_def

lemmas unpublish_eval = NodeUnpublishVolume_def unmount_def

lemma strings_Contains_sublist: "strings_Contains s substr \<longleftrightarrow> sublist substr s"
  by (induction s) (auto simp: sublist_Cons_right)

lemma currentMounts_fold:
  "fold (\<lambda>mntInfo currentMounts.
             if strings_Contains (MountPoint_Path mntInfo) volID
             then currentMounts(MountPoint_Path mntInfo \<mapsto> True)
             else currentMounts) mountList m p =
   (if p \<in> set (filter (\<lambda>p. strings_Contains p volID) (map MountPoint_Path mountList)) then Some True else m p)"
  by (induction mountList arbitrary: m) auto

lemma currentMounts_of_eq:
  "currentMounts_of volID mountList p =
     (if p \<in> set (filter (\<lambda>p. strings_Contains p volID) (map MountPoint_Path mountList)) then Some True else None)"
  by (simp add: currentMounts_of_def currentMounts_fold)

lemma dom_currentMounts_of:
  "dom (currentMounts_of volID mountList) = set (filter (\<lambda>p. strings_Contains p volID) (map MountPoint_Path mountList))"
  by (auto simp: dom_def currentMounts_of_eq split: if_splits)

subsection \<open>The mount state inspector\<close>

text \<open>
  Claim C6. When the mount list can be read, \<open>isAlreadyMounted\<close> looks at the set of the
  mount paths that contain the volume ID as a substring. With no such path or exactly
  one, it returns no error. With more than one, it returns no error if and only if the
  path of the request is one of them, and otherwise the error about the volume being
  mounted at more than one place. It issues one call, the listing of the mounts.
  By \<open>strings_Contains_sublist\<close> the test on a path is the substring relation.
\<close>

theorem isAlreadyMounted_accepts:
  assumes "mounter_List E (length t) = Inr mountList"
  shows "isAlreadyMounted E volID path t =
     (let matches = set (filter (\<lambda>p. strings_Contains p volID) (map MountPoint_Path mountList)) in
      if card matches \<le> 1 then None
      else if path \<in> matches then None
      else Some fmt_Errorf, t @ [Call_mounter_List])"
  using assms
  by (auto simp: isAlreadyMounted_def call_def Let_def dom_currentMounts_of currentMounts_of_eq)

theorem isAlreadyMounted_accepts_witness:
  "mounter_List env_two_mounts (length []) =
     Inr [\<lparr>MountPoint_Device = ''/dev/sdX'', MountPoint_Path = ''/staging/v1''\<rparr>,
          \<lparr>MountPoint_Device = ''/dev/sdX'', MountPoint_Path = ''/pods/a/v1''\<rparr>]
   \<and> isAlreadyMounted env_two_mounts ''v1'' ''/staging/v1'' [] = (None, [Call_mounter_List])
   \<and> isAlreadyMounted env_two_mounts ''v1'' ''/pods/b/v1'' [] = (Some fmt_Errorf, [Call_mounter_List])
   \<and> mounter_List env_ok (length []) = Inr []
   \<and> isAlreadyMounted env_ok ''v1'' ''/pods/b/v1'' [] = (None, [Call_mounter_List])"
proof -
  have h0: "mounter_List env_ok (length []) = Inr []"
    by (simp add: env_examples)
  have h: "mounter_List env_two_mounts (length []) =
     Inr [\<lparr>MountPoint_Device = ''/dev/sdX'', MountPoint_Path = ''/staging/v1''\<rparr>,
          \<lparr>MountPoint_Device = ''/dev/sdX'', MountPoint_Path = ''/pods/a/v1''\<rparr>]"
    by (simp add: env_examples)
  show ?thesis
    using h h0 isAlreadyMounted_accepts [OF h, of "''v1''" "''/staging/v1''"]
      isAlreadyMounted_accepts [OF h, of "''v1''" "''/pods/b/v1''"]
      isAlreadyMounted_accepts [OF h0, of "''v1''" "''/pods/b/v1''"]
    by (simp add: Let_def)
qed

subsection \<open>The transition set\<close>

lemma Insert_Delete: "Insert k T = (True, T') \<Longrightarrow> Delete k T' = T \<and> k \<notin> T"
  by (auto simp: Insert_def Delete_def split: if_splits)

lemma Insert_False: "Insert k T = (False, T') \<Longrightarrow> k \<in> T"
  by (auto simp: Insert_def split: if_splits)

lemma NodeStageVolume_transition:
  "volumeTransition (snd (NodeStageVolume E req ns)) = volumeTransition ns"
  by (auto simp: NodeStageVolume_def split: sum.splits prod.splits bool.splits dest: Insert_Delete)

lemma NodeUnstageVolume_transition:
  "volumeTransition (snd (NodeUnstageVolume E req ns)) = volumeTransition ns"
  by (auto simp: NodeUnstageVolume_def Let_def split: sum.splits prod.splits bool.splits dest: Insert_Delete)

lemma NodePublishVolume_transition:
  "volumeTransition (snd (NodePublishVolume E req ns)) = volumeTransition ns"
  by (auto simp: NodePublishVolume_def Let_def split: sum.splits prod.splits bool.splits option.splits dest: Insert_Delete)

lemma NodeUnpublishVolume_transition:
  "volumeTransition (snd (NodeUnpublishVolume E req ns)) = volumeTransition ns"
  by (auto simp: NodeUnpublishVolume_def Let_def split: sum.splits prod.splits bool.splits option.splits dest: Insert_Delete)

text \<open>
  Claim C9. Each of the four mutating calls that passes its validation and acquires the
  guard for its key (\<open>Insert\<close> answers true) has removed that key from the transition
  set when it returns, whatever it returns. The key of \<open>NodeStageVolume\<close> is the
  volume ID of the validated request; the key of the other three is the volume ID of the
  request as it came.
\<close>

theorem guard_released_on_every_exit:
  "(validateStagingReq E sreq = Inr reqParam \<and> fst (Insert (volumeID reqParam) (volumeTransition ns))
       \<longrightarrow> volumeID reqParam \<notin> volumeTransition (snd (NodeStageVolume E sreq ns)))
   \<and> (unstage_VolumeId ureq \<noteq> [] \<and> unstage_StagingTargetPath ureq \<noteq> []
        \<and> fst (Insert (unstage_VolumeId ureq) (volumeTransition ns))
       \<longrightarrow> unstage_VolumeId ureq \<notin> volumeTransition (snd (NodeUnstageVolume E ureq ns)))
   \<and> (publish_VolumeId preq \<noteq> [] \<and> publish_TargetPath preq \<noteq> []
        \<and> publish_VolumeCapability preq = Some volCap \<and> isValidVolumeCapabilities E [volCap]
        \<and> fst (Insert (publish_VolumeId preq) (volumeTransition ns))
       \<longrightarrow> publish_VolumeId preq \<notin> volumeTransition (snd (NodePublishVolume E preq ns)))
   \<and> (unpublish_VolumeId qreq \<noteq> [] \<and> unpublish_TargetPath qreq \<noteq> []
        \<and> fst (Insert (unpublish_VolumeId qreq) (volumeTransition ns))
       \<longrightarrow> unpublish_VolumeId qreq \<notin> volumeTransition (snd (NodeUnpublishVolume E qreq ns)))"
  by (simp add: NodeStageVolume_transition NodeUnstageVolume_transition
        NodePublishVolume_transition NodeUnpublishVolume_transition Insert_def split: if_splits)

theorem guard_released_on_every_exit_witness:
  "(validateStagingReq env_ok (stage_req ''pvc-v1'' ''/staging/v1'')
      = Inr \<lparr>stagingPath = ''/staging/v1'', fsType = ''ext4'', volumeID = ''v1''\<rparr>
    \<and> fst (Insert ''v1'' (volumeTransition node0))
    \<and> ''v1'' \<notin> volumeTransition (snd (NodeStageVolume env_ok (stage_req ''pvc-v1'' ''/staging/v1'') node0)))
   \<and> (fst (Insert ''v1'' (volumeTransition node0))
    \<and> ''v1'' \<notin> volumeTransition (snd (NodeUnstageVolume env_ok (unstage_req ''v1'' ''/staging/v1'') node0)))
   \<and> (fst (Insert ''v1'' (volumeTransition node0))
    \<and> ''v1'' \<notin> volumeTransition (snd (NodePublishVolume env_ok (publish_req ''v1'' ''/pods/a/v1'') node0)))
   \<and> (fst (Insert ''v1'' (volumeTransition node0))
    \<and> ''v1'' \<notin> volumeTransition (snd (NodeUnpublishVolume env_ok (unpublish_req ''v1'' ''/pods/a/v1'') node0)))"
  using guard_released_on_every_exit [where E = env_ok and ns = node0
      and sreq = "stage_req ''pvc-v1'' ''/staging/v1''"
      and reqParam = "\<lparr>stagingPath = ''/staging/v1'', fsType = ''ext4'', volumeID = ''v1''\<rparr>"
      and ureq = "unstage_req ''v1'' ''/staging/v1''"
      and preq = "publish_req ''v1'' ''/pods/a/v1''" and volCap = "mount_cap []"
      and qreq = "unpublish_req ''v1'' ''/pods/a/v1''"]
  by (simp add: env_examples validateStagingReq_def Insert_def defaultFsType_def FSTypeExt4_def)

subsection \<open>Validation\<close>

lemma validateStagingReq_error:
  "validateStagingReq E req = Inl err \<Longrightarrow> err = status_Error InvalidArgument"
  by (auto simp: validateStagingReq_def Let_def split: if_splits option.splits)

lemma validateStagingReq_empty_path:
  "stage_StagingTargetPath req = [] \<Longrightarrow> validateStagingReq E req = Inl (status_Error InvalidArgument)"
  by (auto simp: validateStagingReq_def Let_def split: if_splits option.splits)

text \<open>
  Claim C8. \<open>NodeStageVolume\<close> with an empty staging path returns InvalidArgument and
  leaves the node as it was: the transition set is not touched, also when the volume ID
  is in it already, and no call goes to any collaborator. The same holds for every
  error of \<open>validateStagingReq\<close>, and for the requests that the other three mutating
  calls reject before they ask for the guard.
\<close>

theorem validation_precedes_effects:
  "(stage_StagingTargetPath sreq = [] \<longrightarrow>
      NodeStageVolume E sreq ns = (Inl (status_Error InvalidArgument), ns))
   \<and> (validateStagingReq E sreq = Inl err \<longrightarrow>
        err = status_Error InvalidArgument \<and> NodeStageVolume E sreq ns = (Inl err, ns))
   \<and> (unstage_VolumeId ureq = [] \<or> unstage_StagingTargetPath ureq = [] \<longrightarrow>
        NodeUnstageVolume E ureq ns = (Inl (status_Error InvalidArgument), ns))
   \<and> (publish_VolumeId preq = [] \<or> publish_TargetPath preq = [] \<or> publish_VolumeCapability preq = None
        \<or> (\<exists>volCap. publish_VolumeCapability preq = Some volCap \<and> \<not> isValidVolumeCapabilities E [volCap]) \<longrightarrow>
        NodePublishVolume E preq ns = (Inl (status_Error InvalidArgument), ns))
   \<and> (unpublish_VolumeId qreq = [] \<or> unpublish_TargetPath qreq = [] \<longrightarrow>
        NodeUnpublishVolume E qreq ns = (Inl (status_Error InvalidArgument), ns))"
proof (intro conjI impI)
  assume "stage_StagingTargetPath sreq = []"
  then show "NodeStageVolume E sreq ns = (Inl (status_Error InvalidArgument), ns)"
    by (simp add: NodeStageVolume_def validateStagingReq_empty_path)
next
  assume "validateStagingReq E sreq = Inl err"
  then show "err = status_Error InvalidArgument" by (rule validateStagingReq_error)
next
  assume "validateStagingReq E sreq = Inl err"
  then show "NodeStageVolume E sreq ns = (Inl err, ns)"
    by (simp add: NodeStageVolume_def)
next
  assume "unstage_VolumeId ureq = [] \<or> unstage_StagingTargetPath ureq = []"
  then show "NodeUnstageVolume E ureq ns = (Inl (status_Error InvalidArgument), ns)"
    by (auto simp: NodeUnstageVolume_def Let_def)
next
  assume "publish_VolumeId preq = [] \<or> publish_TargetPath preq = [] \<or> publish_VolumeCapability preq = None
        \<or> (\<exists>volCap. publish_VolumeCapability preq = Some volCap \<and> \<not> isValidVolumeCapabilities E [volCap])"
  then show "NodePublishVolume E preq ns = (Inl (status_Error InvalidArgument), ns)"
    by (auto simp: NodePublishVolume_def Let_def)
next
  assume "unpublish_VolumeId qreq = [] \<or> unpublish_TargetPath qreq = []"
  then show "NodeUnpublishVolume E qreq ns = (Inl (status_Error InvalidArgument), ns)"
    by (auto simp: NodeUnpublishVolume_def Let_def)
qed

theorem validation_precedes_effects_witness:
  "NodeStageVolume env_ok (stage_req ''v1'' []) \<lparr>volumeTransition = {''v1''}, trace = []\<rparr>
     = (Inl (status_Error InvalidArgument), \<lparr>volumeTransition = {''v1''}, trace = []\<rparr>)
   \<and> validateStagingReq env_ok (stage_req [] ''/staging/v1'') = Inl (status_Error InvalidArgument)
   \<and> NodeStageVolume env_ok (stage_req [] ''/staging/v1'') node0 = (Inl (status_Error InvalidArgument), node0)
   \<and> NodeUnstageVolume env_ok (unstage_req ''v1'' []) node0 = (Inl (status_Error InvalidArgument), node0)
   \<and> NodePublishVolume env_ok (publish_req [] ''/pods/a/v1'') node0 = (Inl (status_Error InvalidArgument), node0)
   \<and> NodeUnpublishVolume env_ok (unpublish_req ''v1'' []) node0 = (Inl (status_Error InvalidArgument), node0)"
proof -
  have v: "validateStagingReq env_ok (stage_req [] ''/staging/v1'') = Inl (status_Error InvalidArgument)"
    by (simp add: validateStagingReq_def stage_req_def)
  show ?thesis
    using v
      validation_precedes_effects [where E = env_ok and sreq = "stage_req ''v1'' []"
        and ns = "\<lparr>volumeTransition = {''v1''}, trace = []\<rparr>" and err = "status_Error InvalidArgument"
        and ureq = "unstage_req ''v1'' []" and preq = "publish_req [] ''/pods/a/v1''"
        and qreq = "unpublish_req ''v1'' []"]
      validation_precedes_effects [where E = env_ok and sreq = "stage_req [] ''/staging/v1''"
        and ns = node0 and err = "status_Error InvalidArgument"
        and ureq = "unstage_req ''v1'' []" and preq = "publish_req [] ''/pods/a/v1''"
        and qreq = "unpublish_req ''v1'' []"]
    by (simp add: stage_req_def unstage_req_def publish_req_def unpublish_req_def)
qed

subsection \<open>Volume statistics\<close>

text \<open>
  Claim C10. \<open>NodeGetVolumeStats\<close> returns InvalidArgument when the volume ID or the
  volume path is empty, without any call to a collaborator. Otherwise it asks the
  mounter whether the path exists: NotFound when it does not (and Internal when the
  question itself fails). Otherwise it asks for the usage: Internal when that fails, the
  usage statistics when it succeeds.
\<close>

theorem NodeGetVolumeStats_results:
  "NodeGetVolumeStats E req ns =
     (if stats_VolumeId req = [] \<or> stats_VolumePath req = []
      then (Inl (status_Error InvalidArgument), ns)
      else
        case mounter_ExistsPath E (length (trace ns)) (stats_VolumePath req) of
          Inl err \<Rightarrow>
            (Inl (status_Error Internal),
             ns\<lparr>trace := trace ns @ [Call_mounter_ExistsPath (stats_VolumePath req)]\<rparr>)
        | Inr mounted \<Rightarrow>
            if \<not> mounted
            then (Inl (status_Error NotFound),
                  ns\<lparr>trace := trace ns @ [Call_mounter_ExistsPath (stats_VolumePath req)]\<rparr>)
            else
              (case getStatistics E (Suc (length (trace ns))) (stats_VolumePath req) of
                 Inl err \<Rightarrow>
                   (Inl (status_Error Internal),
                    ns\<lparr>trace := trace ns @ [Call_mounter_ExistsPath (stats_VolumePath req),
                                              Call_getStatistics (stats_VolumePath req)]\<rparr>)
               | Inr stats \<Rightarrow>
                   (Inr stats,
                    ns\<lparr>trace := trace ns @ [Call_mounter_ExistsPath (stats_VolumePath req),
                                              Call_getStatistics (stats_VolumePath req)]\<rparr>)))"
  by (simp add: NodeGetVolumeStats_def call_def Let_def split: sum.splits)

theorem NodeGetVolumeStats_results_witness:
  "NodeGetVolumeStats env_ok (stats_req ''v1'' ''/pods/a/v1'') node0
     = (Inr [usage_v1], \<lparr>volumeTransition = {},
                          trace = [Call_mounter_ExistsPath ''/pods/a/v1'', Call_getStatistics ''/pods/a/v1'']\<rparr>)
   \<and> NodeGetVolumeStats env_ok (stats_req ''v1'' []) node0 = (Inl (status_Error InvalidArgument), node0)
   \<and> NodeGetVolumeStats (env_ok\<lparr>mounter_ExistsPath := (\<lambda>n path. Inr False)\<rparr>) (stats_req ''v1'' ''/pods/a/v1'') node0
     = (Inl (status_Error NotFound), \<lparr>volumeTransition = {}, trace = [Call_mounter_ExistsPath ''/pods/a/v1'']\<rparr>)
   \<and> NodeGetVolumeStats (env_ok\<lparr>getStatistics := (\<lambda>n path. Inl ErrOther)\<rparr>) (stats_req ''v1'' ''/pods/a/v1'') node0
     = (Inl (status_Error Internal), \<lparr>volumeTransition = {},
                          trace = [Call_mounter_ExistsPath ''/pods/a/v1'', Call_getStatistics ''/pods/a/v1'']\<rparr>)"
  using NodeGetVolumeStats_results [of env_ok "stats_req ''v1'' ''/pods/a/v1''" node0]
    NodeGetVolumeStats_results [of env_ok "stats_req ''v1'' []" node0]
    NodeGetVolumeStats_results [of "env_ok\<lparr>mounter_ExistsPath := (\<lambda>n path. Inr False)\<rparr>" "stats_req ''v1'' ''/pods/a/v1''" node0]
    NodeGetVolumeStats_results [of "env_ok\<lparr>getStatistics := (\<lambda>n path. Inl ErrOther)\<rparr>" "stats_req ''v1'' ''/pods/a/v1''" node0]
  by (simp add: env_ok_def stats_req_def node0_def)

subsection \<open>The readiness poll\<close>

lemma doesVolumeExist_Inr:
  assumes "client_Set E (length t) = None"
    and "client_GetJivaVolume E (Suc (length t)) (StripName E volID) = Inr inst"
  shows "doesVolumeExist E volID t =
           (Inr inst, t @ [Call_client_Set, Call_client_GetJivaVolume (StripName E volID)])"
  using assms by (simp add: doesVolumeExist_def call_def Let_def)

lemma waitForVolumeToBeReady_loop_never_ready:
  "(\<forall>n. client_Set E n = None) \<Longrightarrow>
   (\<forall>n. \<exists>inst. client_GetJivaVolume E n (StripName E volID) = Inr inst
           \<and> \<not> (Status_Phase inst = JivaVolumePhaseReady \<and> Status_Status inst = ''RW'')) \<Longrightarrow>
   waitForVolumeToBeReady_loop E volID retry sleepInterval t =
           (Inl fmt_Errorf,
            t @ status_check E volID sleepInterval
              @ concat (replicate (nat (MaxRetryCount E - retry)) (status_check E volID 5)))"
proof (induction E volID retry sleepInterval t rule: waitForVolumeToBeReady_loop.induct)
  case (1 E volID retry sleepInterval t)
  let ?t0 = "t @ [time_Sleep sleepInterval]"
  let ?t1 = "?t0 @ [Call_client_Set, Call_client_GetJivaVolume (StripName E volID)]"
  from "1.prems" obtain inst where
    get: "client_GetJivaVolume E (Suc (length ?t0)) (StripName E volID) = Inr inst"
    and nr: "\<not> (Status_Phase inst = JivaVolumePhaseReady \<and> Status_Status inst = ''RW'')"
    by blast
  from "1.prems" have "client_Set E (length ?t0) = None" by blast
  then have dv: "doesVolumeExist E volID ?t0 = (Inr inst, ?t1)"
    using get by (rule doesVolumeExist_Inr)
  show ?case
  proof (cases "retry + 1 \<le> MaxRetryCount E")
    case True
    then have n: "nat (MaxRetryCount E - retry) = Suc (nat (MaxRetryCount E - (retry + 1)))"
      by simp
    have "waitForVolumeToBeReady_loop E volID (retry + 1) 5 ?t1 =
            (Inl fmt_Errorf,
             ?t1 @ status_check E volID 5
               @ concat (replicate (nat (MaxRetryCount E - (retry + 1))) (status_check E volID 5)))"
      using "1.IH" [OF dv [symmetric] refl _ True] nr "1.prems" by blast
    then show ?thesis
      using dv nr True
      by (subst waitForVolumeToBeReady_loop.simps) (simp add: n status_check_def)
  next
    case False
    then have n: "nat (MaxRetryCount E - retry) = 0" by simp
    show ?thesis
      using dv nr False
      by (subst waitForVolumeToBeReady_loop.simps) (simp add: n status_check_def)
  qed
qed

lemma filter_concat_replicate:
  "length (filter P (concat (replicate n xs))) = n * length (filter P xs)"
  by (induction n) simp_all

text \<open>
  Below the largest \<open>int\<close> the counter never wraps, and the loop with the unbounded
  counter is the loop of Go.
\<close>

lemma wrap_int_id: "- (2 ^ 63) \<le> x \<Longrightarrow> x \<le> MaxInt \<Longrightarrow> wrap_int x = x"
  by (simp add: wrap_int_def MaxInt_def)

lemma wrap_int_MaxInt: "wrap_int (MaxInt + 1) = - (2 ^ 63)"
  by (simp add: wrap_int_def MaxInt_def)

lemma waitForVolumeToBeReady_wrapping_eq:
  "0 \<le> retry \<Longrightarrow> retry < MaxInt \<Longrightarrow> MaxRetryCount E < MaxInt \<Longrightarrow>
   waitForVolumeToBeReady_wrapping E volID retry sleepInterval t =
     Some (waitForVolumeToBeReady_loop E volID retry sleepInterval t)"
proof (induction E volID retry sleepInterval t rule: waitForVolumeToBeReady_loop.induct)
  case (1 E volID retry sleepInterval t)
  have w: "wrap_int (retry + 1) = retry + 1"
    using "1.prems" by (intro wrap_int_id) (simp_all add: MaxInt_def)
  show ?case
  proof (cases "doesVolumeExist E volID (t @ [time_Sleep sleepInterval])")
    case (Pair r t1)
    show ?thesis
    proof (cases r)
      case (Inl err)
      with Pair show ?thesis
        by (subst waitForVolumeToBeReady_wrapping.simps, subst waitForVolumeToBeReady_loop.simps) simp
    next
      case (Inr inst)
      show ?thesis
      proof (cases "Status_Phase inst = JivaVolumePhaseReady \<and> Status_Status inst = ''RW''")
        case True
        with Pair Inr show ?thesis
          by (subst waitForVolumeToBeReady_wrapping.simps, subst waitForVolumeToBeReady_loop.simps) simp
      next
        case False
        note not_ready = this
        show ?thesis
        proof (cases "retry + 1 \<le> MaxRetryCount E")
          case True
          then have "waitForVolumeToBeReady_wrapping E volID (retry + 1) 5 t1 =
                       Some (waitForVolumeToBeReady_loop E volID (retry + 1) 5 t1)"
            using "1.IH" [OF Pair [symmetric] Inr not_ready] "1.prems" by simp
          with True not_ready Pair Inr w show ?thesis
            by (subst waitForVolumeToBeReady_wrapping.simps, subst waitForVolumeToBeReady_loop.simps) auto
        next
          case False
          with not_ready Pair Inr w show ?thesis
            by (subst waitForVolumeToBeReady_wrapping.simps, subst waitForVolumeToBeReady_loop.simps) auto
        qed
      qed
    qed
  qed
qed

text \<open>
  Claim C2. Take a stage request that passes validation and acquires the guard, a retry
  budget \<open>MaxRetryCount\<close> that is not negative and below the largest \<open>int\<close>, a client
  whose set-up always succeeds and a record that is there at every read and is never both
  Ready and RW. Then \<open>NodeStageVolume\<close> returns FailedPrecondition, and the calls it has
  issued are exactly one status check after a sleep of 0 seconds followed by
  \<open>MaxRetryCount\<close> status checks after a sleep of 5 seconds each: \<open>MaxRetryCount + 1\<close>
  reads of the record in all. The loop with the wrapping counter returns, with the same
  calls.
\<close>

theorem readiness_poll_retry_bound:
  assumes valid: "validateStagingReq E req = Inr reqParam"
    and acquired: "fst (Insert (volumeID reqParam) (volumeTransition ns))"
    and budget: "0 \<le> MaxRetryCount E"
    and below_max: "MaxRetryCount E < MaxInt"
    and set_ok: "\<forall>n. client_Set E n = None"
    and never_ready:
      "\<forall>n. \<exists>inst. client_GetJivaVolume E n (StripName E (volumeID reqParam)) = Inr inst
             \<and> \<not> (Status_Phase inst = JivaVolumePhaseReady \<and> Status_Status inst = ''RW'')"
  shows "NodeStageVolume E req ns =
           (Inl (status_Error FailedPrecondition),
            ns\<lparr>trace := trace ns @ status_check E (volumeID reqParam) 0
                         @ concat (replicate (nat (MaxRetryCount E)) (status_check E (volumeID reqParam) 5))\<rparr>)
         \<and> int (length (filter (\<lambda>ev. ev = Call_client_GetJivaVolume (StripName E (volumeID reqParam)))
                          (drop (length (trace ns)) (trace (snd (NodeStageVolume E req ns))))))
             = MaxRetryCount E + 1
         \<and> waitForVolumeToBeReady_wrapping E (volumeID reqParam) 0 0 (trace ns) =
             Some (Inl fmt_Errorf,
                   trace ns @ status_check E (volumeID reqParam) 0
                     @ concat (replicate (nat (MaxRetryCount E)) (status_check E (volumeID reqParam) 5)))"
proof -
  let ?new = "status_check E (volumeID reqParam) 0
                @ concat (replicate (nat (MaxRetryCount E)) (status_check E (volumeID reqParam) 5))"
  have loop: "waitForVolumeToBeReady_loop E (volumeID reqParam) 0 0 (trace ns) = (Inl fmt_Errorf, trace ns @ ?new)"
    using waitForVolumeToBeReady_loop_never_ready [OF set_ok never_ready, of 0 0 "trace ns"]
    by simp
  then have poll: "waitForVolumeToBeReady E (volumeID reqParam) (trace ns) = (Inl fmt_Errorf, trace ns @ ?new)"
    by (simp add: waitForVolumeToBeReady_def)
  have "(0::int) < MaxInt" by (simp add: MaxInt_def)
  then have wrapping: "waitForVolumeToBeReady_wrapping E (volumeID reqParam) 0 0 (trace ns) =
             Some (Inl fmt_Errorf, trace ns @ ?new)"
    using waitForVolumeToBeReady_wrapping_eq [of 0 E "volumeID reqParam" 0 "trace ns"] below_max loop
    by simp
  from acquired have ins: "Insert (volumeID reqParam) (volumeTransition ns)
      = (True, insert (volumeID reqParam) (volumeTransition ns))"
    and free: "volumeID reqParam \<notin> volumeTransition ns"
    by (auto simp: Insert_def split: if_splits)
  have res: "NodeStageVolume E req ns =
           (Inl (status_Error FailedPrecondition), ns\<lparr>trace := trace ns @ ?new\<rparr>)"
    using free by (simp add: NodeStageVolume_def valid ins NodeStageVolume_locked_def poll Delete_def)
  have cnt: "length (filter (\<lambda>ev. ev = Call_client_GetJivaVolume (StripName E (volumeID reqParam))) ?new)
               = nat (MaxRetryCount E) + 1"
    by (simp add: filter_concat_replicate status_check_def)
  have new: "drop (length (trace ns)) (trace (snd (NodeStageVolume E req ns))) = ?new"
    by (simp add: res)
  have "int (length (filter (\<lambda>ev. ev = Call_client_GetJivaVolume (StripName E (volumeID reqParam)))
                          (drop (length (trace ns)) (trace (snd (NodeStageVolume E req ns))))))
             = MaxRetryCount E + 1"
    unfolding new cnt using budget by simp
  with res wrapping show ?thesis by (intro conjI)
qed

theorem readiness_poll_retry_bound_witness:
  "validateStagingReq env_not_ready (stage_req ''v1'' ''/staging/v1'')
      = Inr \<lparr>stagingPath = ''/staging/v1'', fsType = ''ext4'', volumeID = ''v1''\<rparr>
   \<and> fst (Insert ''v1'' (volumeTransition node0))
   \<and> 0 \<le> MaxRetryCount env_not_ready
   \<and> MaxRetryCount env_not_ready < MaxInt
   \<and> MaxRetryCount env_not_ready = 3
   \<and> (\<forall>n. client_Set env_not_ready n = None)
   \<and> (\<forall>n. \<exists>inst. client_GetJivaVolume env_not_ready n (StripName env_not_ready ''v1'') = Inr inst
             \<and> \<not> (Status_Phase inst = JivaVolumePhaseReady \<and> Status_Status inst = ''RW''))
   \<and> NodeStageVolume env_not_ready (stage_req ''v1'' ''/staging/v1'') node0 =
       (Inl (status_Error FailedPrecondition),
        \<lparr>volumeTransition = {},
         trace = [time_Sleep 0, Call_client_Set, Call_client_GetJivaVolume ''v1'',
                  time_Sleep 5, Call_client_Set, Call_client_GetJivaVolume ''v1'',
                  time_Sleep 5, Call_client_Set, Call_client_GetJivaVolume ''v1'',
                  time_Sleep 5, Call_client_Set, Call_client_GetJivaVolume ''v1'']\<rparr>)
   \<and> waitForVolumeToBeReady_wrapping env_not_ready ''v1'' 0 0 [] =
       Some (Inl fmt_Errorf,
             [time_Sleep 0, Call_client_Set, Call_client_GetJivaVolume ''v1'',
              time_Sleep 5, Call_client_Set, Call_client_GetJivaVolume ''v1'',
              time_Sleep 5, Call_client_Set, Call_client_GetJivaVolume ''v1'',
              time_Sleep 5, Call_client_Set, Call_client_GetJivaVolume ''v1''])"
proof -
  have valid: "validateStagingReq env_not_ready (stage_req ''v1'' ''/staging/v1'')
      = Inr \<lparr>stagingPath = ''/staging/v1'', fsType = ''ext4'', volumeID = ''v1''\<rparr>"
    by (simp add: validateStagingReq_def env_examples defaultFsType_def FSTypeExt4_def)
  have acquired: "fst (Insert (volumeID \<lparr>stagingPath = ''/staging/v1'', fsType = ''ext4'', volumeID = ''v1''\<rparr>)
                         (volumeTransition node0))"
    by (simp add: Insert_def node0_def)
  have budget: "0 \<le> MaxRetryCount env_not_ready" and three: "MaxRetryCount env_not_ready = 3"
    and below_max: "MaxRetryCount env_not_ready < MaxInt"
    by (simp_all add: env_examples MaxInt_def)
  have set_ok: "\<forall>n. client_Set env_not_ready n = None"
    by (simp add: env_examples)
  have never_ready:
    "\<forall>n. \<exists>inst. client_GetJivaVolume env_not_ready n
                    (StripName env_not_ready (volumeID \<lparr>stagingPath = ''/staging/v1'', fsType = ''ext4'', volumeID = ''v1''\<rparr>))
                  = Inr inst
             \<and> \<not> (Status_Phase inst = JivaVolumePhaseReady \<and> Status_Status inst = ''RW'')"
    by (simp add: env_examples)
  have strip: "StripName env_not_ready ''v1'' = ''v1''"
    by (simp add: env_examples)
  show ?thesis
    using valid acquired budget below_max three set_ok never_ready
      readiness_poll_retry_bound [OF valid acquired budget below_max set_ok never_ready]
    by (simp add: status_check_def strip node0_def numeral_3_eq_3)
qed

subsection \<open>Teardown\<close>

lemma NodeUnstageVolume_success_acquired:
  "NodeUnstageVolume E req ns = (Inr (), ns1) \<Longrightarrow>
     unstage_VolumeId req \<noteq> [] \<and> unstage_StagingTargetPath req \<noteq> []
     \<and> unstage_VolumeId req \<notin> volumeTransition ns"
  by (auto simp: NodeUnstageVolume_def Let_def Insert_def split: if_splits prod.splits)

lemma NodeUnpublishVolume_success_acquired:
  "NodeUnpublishVolume E req ns = (Inr (), ns1) \<Longrightarrow>
     unpublish_VolumeId req \<noteq> [] \<and> unpublish_TargetPath req \<noteq> []
     \<and> unpublish_VolumeId req \<notin> volumeTransition ns"
  by (auto simp: NodeUnpublishVolume_def Let_def Insert_def split: if_splits prod.splits option.splits)

lemma NodeUnstageVolume_not_mounted:
  assumes "unstage_VolumeId req \<noteq> []" and "unstage_StagingTargetPath req \<noteq> []"
    and "unstage_VolumeId req \<notin> volumeTransition ns"
    and "mounter_GetDeviceName E (length (trace ns)) (unstage_StagingTargetPath req) = (dev, 0, None)"
  shows "NodeUnstageVolume E req ns =
           (Inr (), ns\<lparr>trace := trace ns @ [Call_mounter_GetDeviceName (unstage_StagingTargetPath req)]\<rparr>)"
  using assms
  by (simp add: NodeUnstageVolume_def Let_def Insert_def Delete_def NodeUnstageVolume_locked_def call_def)

lemma NodeUnpublishVolume_not_mounted:
  assumes "unpublish_VolumeId req \<noteq> []" and "unpublish_TargetPath req \<noteq> []"
    and "unpublish_VolumeId req \<notin> volumeTransition ns"
    and "mounter_IsLikelyNotMountPoint E (length (trace ns)) (unpublish_TargetPath req) = (notMnt, err)"
    and "(err = None \<and> notMnt) \<or> os_IsNotExist err"
  shows "NodeUnpublishVolume E req ns =
           (Inr (), ns\<lparr>trace := trace ns @ [Call_mounter_IsLikelyNotMountPoint (unpublish_TargetPath req)]\<rparr>)"
  using assms
  by (auto simp: NodeUnpublishVolume_def Let_def Insert_def Delete_def unmount_def call_def)

text \<open>
  Claim C7. \<open>NodeUnstageVolume\<close> on a staging path for which the mounter reports the
  reference count 0, and \<open>NodeUnpublishVolume\<close> on a target that is not a mount point
  or does not exist, return success after that one question to the mounter: no unmount
  and no disconnect is issued. And when a first teardown has returned success and the
  mounter then reports the path as not mounted, a second teardown with the same request
  returns success again, with that one question as its only call.
\<close>

theorem idempotent_teardown:
  "(unstage_VolumeId ureq \<noteq> [] \<and> unstage_StagingTargetPath ureq \<noteq> []
      \<and> fst (Insert (unstage_VolumeId ureq) (volumeTransition ns))
      \<and> mounter_GetDeviceName E (length (trace ns)) (unstage_StagingTargetPath ureq) = (dev, 0, None)
    \<longrightarrow> NodeUnstageVolume E ureq ns =
          (Inr (), ns\<lparr>trace := trace ns @ [Call_mounter_GetDeviceName (unstage_StagingTargetPath ureq)]\<rparr>))
   \<and> (unpublish_VolumeId qreq \<noteq> [] \<and> unpublish_TargetPath qreq \<noteq> []
      \<and> fst (Insert (unpublish_VolumeId qreq) (volumeTransition ns))
      \<and> mounter_IsLikelyNotMountPoint E (length (trace ns)) (unpublish_TargetPath qreq) = (notMnt, err)
      \<and> ((err = None \<and> notMnt) \<or> os_IsNotExist err)
    \<longrightarrow> NodeUnpublishVolume E qreq ns =
          (Inr (), ns\<lparr>trace := trace ns @ [Call_mounter_IsLikelyNotMountPoint (unpublish_TargetPath qreq)]\<rparr>))
   \<and> (NodeUnstageVolume E ureq ns = (Inr (), nsa)
      \<and> mounter_GetDeviceName E (length (trace nsa)) (unstage_StagingTargetPath ureq) = (deva, 0, None)
    \<longrightarrow> NodeUnstageVolume E ureq nsa =
          (Inr (), nsa\<lparr>trace := trace nsa @ [Call_mounter_GetDeviceName (unstage_StagingTargetPath ureq)]\<rparr>))
   \<and> (NodeUnpublishVolume E qreq ns = (Inr (), nsb)
      \<and> mounter_IsLikelyNotMountPoint E (length (trace nsb)) (unpublish_TargetPath qreq) = (notMntb, errb)
      \<and> ((errb = None \<and> notMntb) \<or> os_IsNotExist errb)
    \<longrightarrow> NodeUnpublishVolume E qreq nsb =
          (Inr (), nsb\<lparr>trace := trace nsb @ [Call_mounter_IsLikelyNotMountPoint (unpublish_TargetPath qreq)]\<rparr>))"
proof (intro conjI impI; (elim conjE)?)
  assume "unstage_VolumeId ureq \<noteq> []" "unstage_StagingTargetPath ureq \<noteq> []"
    "fst (Insert (unstage_VolumeId ureq) (volumeTransition ns))"
    "mounter_GetDeviceName E (length (trace ns)) (unstage_StagingTargetPath ureq) = (dev, 0, None)"
  then show "NodeUnstageVolume E ureq ns =
          (Inr (), ns\<lparr>trace := trace ns @ [Call_mounter_GetDeviceName (unstage_StagingTargetPath ureq)]\<rparr>)"
    by (intro NodeUnstageVolume_not_mounted) (auto simp: Insert_def split: if_splits)
next
  assume "unpublish_VolumeId qreq \<noteq> []" "unpublish_TargetPath qreq \<noteq> []"
    "fst (Insert (unpublish_VolumeId qreq) (volumeTransition ns))"
    "mounter_IsLikelyNotMountPoint E (length (trace ns)) (unpublish_TargetPath qreq) = (notMnt, err)"
    "(err = None \<and> notMnt) \<or> os_IsNotExist err"
  then show "NodeUnpublishVolume E qreq ns =
          (Inr (), ns\<lparr>trace := trace ns @ [Call_mounter_IsLikelyNotMountPoint (unpublish_TargetPath qreq)]\<rparr>)"
    by (intro NodeUnpublishVolume_not_mounted) (auto simp: Insert_def split: if_splits)
next
  assume first: "NodeUnstageVolume E ureq ns = (Inr (), nsa)"
    and gone: "mounter_GetDeviceName E (length (trace nsa)) (unstage_StagingTargetPath ureq) = (deva, 0, None)"
  from first have ok: "unstage_VolumeId ureq \<noteq> []" "unstage_StagingTargetPath ureq \<noteq> []"
    "unstage_VolumeId ureq \<notin> volumeTransition ns"
    by (auto dest: NodeUnstageVolume_success_acquired)
  from first have "volumeTransition nsa = volumeTransition ns"
    using NodeUnstageVolume_transition [of E ureq ns] by simp
  with ok have "unstage_VolumeId ureq \<notin> volumeTransition nsa" by simp
  with ok gone show "NodeUnstageVolume E ureq nsa =
          (Inr (), nsa\<lparr>trace := trace nsa @ [Call_mounter_GetDeviceName (unstage_StagingTargetPath ureq)]\<rparr>)"
    by (intro NodeUnstageVolume_not_mounted)
next
  assume first: "NodeUnpublishVolume E qreq ns = (Inr (), nsb)"
    and gone: "mounter_IsLikelyNotMountPoint E (length (trace nsb)) (unpublish_TargetPath qreq) = (notMntb, errb)"
      "(errb = None \<and> notMntb) \<or> os_IsNotExist errb"
  from first have ok: "unpublish_VolumeId qreq \<noteq> []" "unpublish_TargetPath qreq \<noteq> []"
    "unpublish_VolumeId qreq \<notin> volumeTransition ns"
    by (auto dest: NodeUnpublishVolume_success_acquired)
  from first have "volumeTransition nsb = volumeTransition ns"
    using NodeUnpublishVolume_transition [of E qreq ns] by simp
  with ok have "unpublish_VolumeId qreq \<notin> volumeTransition nsb" by simp
  with ok gone show "NodeUnpublishVolume E qreq nsb =
          (Inr (), nsb\<lparr>trace := trace nsb @ [Call_mounter_IsLikelyNotMountPoint (unpublish_TargetPath qreq)]\<rparr>)"
    by (intro NodeUnpublishVolume_not_mounted)
qed



theorem idempotent_teardown_witness:
  "mounter_GetDeviceName env_ok 0 ''/staging/v1'' = ([], 0, None)
   \<and> mounter_IsLikelyNotMountPoint env_ok 0 ''/pods/a/v1'' = (True, None)
   \<and> mounter_GetDeviceName env_mounted_once 6 ''/staging/v1'' = ([], 0, None)
   \<and> mounter_IsLikelyNotMountPoint env_mounted_once 2 ''/pods/a/v1'' = (True, None)
   \<and> NodeUnstageVolume env_ok (unstage_req ''v1'' ''/staging/v1'') node0 =
     (Inr (), \<lparr>volumeTransition = {}, trace = [Call_mounter_GetDeviceName ''/staging/v1'']\<rparr>)
   \<and> NodeUnpublishVolume env_ok (unpublish_req ''v1'' ''/pods/a/v1'') node0 =
     (Inr (), \<lparr>volumeTransition = {}, trace = [Call_mounter_IsLikelyNotMountPoint ''/pods/a/v1'']\<rparr>)
   \<and> NodeUnstageVolume env_mounted_once (unstage_req ''v1'' ''/staging/v1'') node0 =
     (Inr (), \<lparr>volumeTransition = {},
               trace = [Call_mounter_GetDeviceName ''/staging/v1'', Call_mounter_Unmount ''/staging/v1'',
                        Call_client_Set, Call_client_GetJivaVolume ''v1'',
                        Call_iscsi_Disconnect ''iqn.2016-09.com.openebs.jiva:v1'' [(''10.0.0.7'', 3260)],
                        Call_os_RemoveAll ''/staging/v1'']\<rparr>)
   \<and> NodeUnstageVolume env_mounted_once (unstage_req ''v1'' ''/staging/v1'')
       \<lparr>volumeTransition = {},
        trace = [Call_mounter_GetDeviceName ''/staging/v1'', Call_mounter_Unmount ''/staging/v1'',
                 Call_client_Set, Call_client_GetJivaVolume ''v1'',
                 Call_iscsi_Disconnect ''iqn.2016-09.com.openebs.jiva:v1'' [(''10.0.0.7'', 3260)],
                 Call_os_RemoveAll ''/staging/v1'']\<rparr> =
     (Inr (), \<lparr>volumeTransition = {},
               trace = [Call_mounter_GetDeviceName ''/staging/v1'', Call_mounter_Unmount ''/staging/v1'',
                        Call_client_Set, Call_client_GetJivaVolume ''v1'',
                        Call_iscsi_Disconnect ''iqn.2016-09.com.openebs.jiva:v1'' [(''10.0.0.7'', 3260)],
                        Call_os_RemoveAll ''/staging/v1'', Call_mounter_GetDeviceName ''/staging/v1'']\<rparr>)
   \<and> NodeUnpublishVolume env_mounted_once (unpublish_req ''v1'' ''/pods/a/v1'') node0 =
     (Inr (), \<lparr>volumeTransition = {},
               trace = [Call_mounter_IsLikelyNotMountPoint ''/pods/a/v1'', Call_mounter_Unmount ''/pods/a/v1'']\<rparr>)
   \<and> NodeUnpublishVolume env_mounted_once (unpublish_req ''v1'' ''/pods/a/v1'')
       \<lparr>volumeTransition = {},
        trace = [Call_mounter_IsLikelyNotMountPoint ''/pods/a/v1'', Call_mounter_Unmount ''/pods/a/v1'']\<rparr> =
     (Inr (), \<lparr>volumeTransition = {},
               trace = [Call_mounter_IsLikelyNotMountPoint ''/pods/a/v1'', Call_mounter_Unmount ''/pods/a/v1'',
                        Call_mounter_IsLikelyNotMountPoint ''/pods/a/v1'']\<rparr>)"
proof -
  let ?ns1 = "\<lparr>volumeTransition = {},
        trace = [Call_mounter_GetDeviceName ''/staging/v1'', Call_mounter_Unmount ''/staging/v1'',
                 Call_client_Set, Call_client_GetJivaVolume ''v1'',
                 Call_iscsi_Disconnect ''iqn.2016-09.com.openebs.jiva:v1'' [(''10.0.0.7'', 3260)],
                 Call_os_RemoveAll ''/staging/v1'']\<rparr>"
  let ?ns2 = "\<lparr>volumeTransition = {},
        trace = [Call_mounter_IsLikelyNotMountPoint ''/pods/a/v1'', Call_mounter_Unmount ''/pods/a/v1'']\<rparr>"
  have first_unstage: "NodeUnstageVolume env_mounted_once (unstage_req ''v1'' ''/staging/v1'') node0 = (Inr (), ?ns1)"
    by (simp add: unstage_eval common_eval env_examples)
  have first_unpublish: "NodeUnpublishVolume env_mounted_once (unpublish_req ''v1'' ''/pods/a/v1'') node0 = (Inr (), ?ns2)"
    by (simp add: unpublish_eval common_eval env_examples)
  have gone1: "mounter_GetDeviceName env_mounted_once (length (trace ?ns1))
                 (unstage_StagingTargetPath (unstage_req ''v1'' ''/staging/v1'')) = ([], 0, None)"
    by (simp add: env_examples)
  have gone2: "mounter_IsLikelyNotMountPoint env_mounted_once (length (trace ?ns2))
                 (unpublish_TargetPath (unpublish_req ''v1'' ''/pods/a/v1'')) = (True, None)"
    by (simp add: env_examples)
  have zero1: "mounter_GetDeviceName env_ok (length (trace node0))
                 (unstage_StagingTargetPath (unstage_req ''v1'' ''/staging/v1'')) = ([], 0, None)"
    by (simp add: env_examples)
  have zero2: "mounter_IsLikelyNotMountPoint env_ok (length (trace node0))
                 (unpublish_TargetPath (unpublish_req ''v1'' ''/pods/a/v1'')) = (True, None)"
    by (simp add: env_examples)
  note direct = idempotent_teardown [where E = env_ok and ns = node0
      and ureq = "unstage_req ''v1'' ''/staging/v1''" and qreq = "unpublish_req ''v1'' ''/pods/a/v1''"
      and dev = "[]" and notMnt = True and err = None, THEN conjunct1]
    idempotent_teardown [where E = env_ok and ns = node0
      and ureq = "unstage_req ''v1'' ''/staging/v1''" and qreq = "unpublish_req ''v1'' ''/pods/a/v1''"
      and dev = "[]" and notMnt = True and err = None, THEN conjunct2, THEN conjunct1]
  note again = idempotent_teardown [where E = env_mounted_once and ns = node0
      and ureq = "unstage_req ''v1'' ''/staging/v1''" and qreq = "unpublish_req ''v1'' ''/pods/a/v1''"
      and nsa = ?ns1 and nsb = ?ns2 and deva = "[]" and notMntb = True and errb = None,
      THEN conjunct2, THEN conjunct2]
  have a: "NodeUnstageVolume env_ok (unstage_req ''v1'' ''/staging/v1'') node0 =
     (Inr (), \<lparr>volumeTransition = {}, trace = [Call_mounter_GetDeviceName ''/staging/v1'']\<rparr>)"
    using direct(1) zero1 by (simp add: unstage_req_def node0_def Insert_def)
  have b: "NodeUnpublishVolume env_ok (unpublish_req ''v1'' ''/pods/a/v1'') node0 =
     (Inr (), \<lparr>volumeTransition = {}, trace = [Call_mounter_IsLikelyNotMountPoint ''/pods/a/v1'']\<rparr>)"
    using direct(2) zero2 by (simp add: unpublish_req_def node0_def Insert_def)
  have c: "NodeUnstageVolume env_mounted_once (unstage_req ''v1'' ''/staging/v1'') ?ns1 =
     (Inr (), ?ns1\<lparr>trace := trace ?ns1 @ [Call_mounter_GetDeviceName ''/staging/v1'']\<rparr>)"
    using again [THEN conjunct1] first_unstage gone1 by (simp add: unstage_req_def)
  have d: "NodeUnpublishVolume env_mounted_once (unpublish_req ''v1'' ''/pods/a/v1'') ?ns2 =
     (Inr (), ?ns2\<lparr>trace := trace ?ns2 @ [Call_mounter_IsLikelyNotMountPoint ''/pods/a/v1'']\<rparr>)"
    using again [THEN conjunct2] first_unpublish gone2 by (simp add: unpublish_req_def)
  have asked: "mounter_GetDeviceName env_ok 0 ''/staging/v1'' = ([], 0, None)"
    "mounter_IsLikelyNotMountPoint env_ok 0 ''/pods/a/v1'' = (True, None)"
    "mounter_GetDeviceName env_mounted_once 6 ''/staging/v1'' = ([], 0, None)"
    "mounter_IsLikelyNotMountPoint env_mounted_once 2 ''/pods/a/v1'' = (True, None)"
    by (simp_all add: env_examples)
  show ?thesis
    using asked a b c d first_unstage first_unpublish by simp
qed

subsection \<open>The default file system\<close>

lemma formatAndMount_passes_declared_fsType:
  assumes "Call_mounter_FormatAndMount source target fstype options \<in> set (snd (formatAndMount E req devicePath t))"
    and "Call_mounter_FormatAndMount source target fstype options \<notin> set t"
  shows "fstype = GetFsType (GetMount (stage_VolumeCapability req))"
  using assms
  by (auto simp: formatAndMount_def call_def Let_def split: prod.splits option.splits if_splits)

lemma validateStagingReq_default_fsType:
  assumes "validateStagingReq E req = Inr reqParam"
    and "GetFsType (GetMount (stage_VolumeCapability req)) = []"
  shows "fsType reqParam = ''ext4''"
  using assms
  by (auto simp: validateStagingReq_def Let_def defaultFsType_def FSTypeExt4_def
      split: if_splits option.splits)

text \<open>
  Claim C3. A stage request that declares no file system type, on the node where every
  collaborator succeeds: the record is written with the file system type \<open>ext4\<close> in
  its mount information, and the mounter is asked to format and mount with the empty
  file system type, the one the request declared. \<open>formatAndMount\<close> reads the type
  from the request again and not from the validated request.
\<close>

theorem stage_default_fsType_not_passed_to_mount:
  "GetFsType (GetMount (stage_VolumeCapability (stage_req ''v1'' ''/staging/v1''))) = []
   \<and> NodeStageVolume env_ok (stage_req ''v1'' ''/staging/v1'') node0 =
     (Inr (),
      \<lparr>volumeTransition = {},
       trace = [time_Sleep 0, Call_client_Set, Call_client_GetJivaVolume ''v1'',
                Call_mounter_List,
                Call_net_Dial (''10.0.0.7'', 3260),
                Call_iscsi_Connect \<lparr>VolumeName = ''v1'', TargetIqn = ''iqn.2016-09.com.openebs.jiva:v1'',
                                    Lun = 0, Interface = ''default'',
                                    TargetPortals = [(''10.0.0.7'', 3260)], DoDiscovery = True\<rparr>,
                Call_client_GetJivaVolume ''v1'',
                Call_client_UpdateJivaVolume
                  (vol_v1\<lparr>Spec_MountInfo := \<lparr>FSType = ''ext4'', DevicePath = ''/dev/sdX'', Path = ''/staging/v1''\<rparr>\<rparr>),
                Call_os_MkdirAll ''/staging/v1'' 488,
                Call_mounter_IsLikelyNotMountPoint ''/staging/v1'',
                Call_mounter_FormatAndMount ''/dev/sdX'' ''/staging/v1'' [] []]\<rparr>)"
  by (simp add: stage_eval common_eval env_examples)

subsection \<open>Failures of the record store during a staging\<close>

lemma waitForVolumeToBeReady_loop_read_fails:
  "fst (doesVolumeExist E volID (t @ [time_Sleep sleepInterval])) = Inl err \<Longrightarrow>
   fst (waitForVolumeToBeReady_loop E volID retry sleepInterval t) = Inl err"
  by (subst waitForVolumeToBeReady_loop.simps) (auto split: prod.splits sum.splits)

lemma doesVolumeExist_error_codes:
  "fst (doesVolumeExist E volID t) = Inl err \<Longrightarrow>
   err = status_Error Internal \<or> err = status_Error NotFound"
  by (auto simp: doesVolumeExist_def call_def Let_def split: option.splits sum.splits if_splits)



lemma NodeStageVolume_refetch_fails:
  assumes "validateStagingReq E req = Inr reqParam"
    and "fst (Insert (volumeID reqParam) (volumeTransition ns))"
    and "waitForVolumeToBeReady E (volumeID reqParam) (trace ns) = (Inr inst, t1)"
    and "isAlreadyMounted E (volumeID reqParam) (stagingPath reqParam) t1 = (None, t2)"
    and "waitForVolumeToBeReachable E (TargetIP (Spec_ISCSISpec inst), TargetPort (Spec_ISCSISpec inst)) t2 = (None, t3)"
    and "attachDisk E inst t3 = (Inr devicePath, t4)"
    and "client_GetJivaVolume E (length t4) (volumeID reqParam) = Inl e"
  shows "fst (NodeStageVolume E req ns) = Inl (raw e)"
  using assms
  by (simp add: NodeStageVolume_def NodeStageVolume_locked_def Insert_def call_def Let_def split: if_splits)












subsection \<open>The key of the guard\<close>

text \<open>
  A request whose key is in the transition set is answered with Aborted, and the node
  is left as it was.
\<close>

lemma NodeUnstageVolume_guard_held:
  assumes "unstage_VolumeId req \<noteq> []" and "unstage_StagingTargetPath req \<noteq> []"
    and "unstage_VolumeId req \<in> volumeTransition ns"
  shows "NodeUnstageVolume E req ns = (Inl (status_Error Aborted), ns)"
  using assms by (simp add: NodeUnstageVolume_def Let_def Insert_def)

lemma NodeStageVolume_guard_held:
  assumes "validateStagingReq E req = Inr reqParam"
    and "volumeID reqParam \<in> volumeTransition ns"
  shows "NodeStageVolume E req ns = (Inl (status_Error Aborted), ns)"
  using assms by (simp add: NodeStageVolume_def Insert_def)

lemma NodePublishVolume_guard_held:
  assumes "publish_VolumeId req \<noteq> []" and "publish_TargetPath req \<noteq> []"
    and "publish_VolumeCapability req = Some volCap" and "isValidVolumeCapabilities E [volCap]"
    and "publish_VolumeId req \<in> volumeTransition ns"
  shows "NodePublishVolume E req ns = (Inl (status_Error Aborted), ns)"
  using assms by (simp add: NodePublishVolume_def Let_def Insert_def)

lemma NodeUnpublishVolume_guard_held:
  assumes "unpublish_VolumeId req \<noteq> []" and "unpublish_TargetPath req \<noteq> []"
    and "unpublish_VolumeId req \<in> volumeTransition ns"
  shows "NodeUnpublishVolume E req ns = (Inl (status_Error Aborted), ns)"
  using assms by (simp add: NodeUnpublishVolume_def Let_def Insert_def)

text \<open>
  No call returns Aborted from its locked part, so a request that passes validation is
  answered with Aborted exactly when its key is in the transition set. The key of
  \<open>NodeStageVolume\<close> is the stripped volume ID; the key of the other three calls is
  the volume ID as the request gives it.
\<close>

lemma doesVolumeExist_not_Aborted:
  "doesVolumeExist E volID t \<noteq> (Inl (status_Error Aborted), t')"
  by (auto simp: doesVolumeExist_def call_def Let_def split: option.splits sum.splits if_splits)

lemma NodeUnstageVolume_locked_not_Aborted:
  "fst (NodeUnstageVolume_locked E volID target t) \<noteq> Inl (status_Error Aborted)"
  by (auto simp: NodeUnstageVolume_locked_def call_def Let_def doesVolumeExist_not_Aborted
      split: prod.splits option.splits sum.splits if_splits)

lemma NodeUnstageVolume_Aborted_iff:
  assumes "unstage_VolumeId req \<noteq> []" and "unstage_StagingTargetPath req \<noteq> []"
  shows "fst (NodeUnstageVolume E req ns) = Inl (status_Error Aborted)
         \<longleftrightarrow> unstage_VolumeId req \<in> volumeTransition ns"
  using assms NodeUnstageVolume_locked_not_Aborted [of E "unstage_VolumeId req" "unstage_StagingTargetPath req" "trace ns"]
  by (auto simp: NodeUnstageVolume_def Let_def Insert_def split: prod.splits)

lemma NodeStageVolume_locked_not_Aborted:
  "fst (NodeStageVolume_locked E req reqParam t) \<noteq> Inl (status_Error Aborted)"
  by (auto simp: NodeStageVolume_locked_def isAlreadyMounted_def call_def Let_def
      split: prod.splits option.splits sum.splits if_splits)

lemma NodeStageVolume_Aborted_iff:
  assumes "validateStagingReq E req = Inr reqParam"
  shows "fst (NodeStageVolume E req ns) = Inl (status_Error Aborted)
         \<longleftrightarrow> StripName E (stage_VolumeId req) \<in> volumeTransition ns"
proof -
  from assms have "volumeID reqParam = StripName E (stage_VolumeId req)"
    by (auto simp: validateStagingReq_def Let_def split: if_splits option.splits)
  then show ?thesis
    using assms NodeStageVolume_locked_not_Aborted [of E req reqParam "trace ns"]
    by (auto simp: NodeStageVolume_def Insert_def split: prod.splits)
qed

lemma nodePublishVolumeForFileSystem_not_Aborted:
  "nodePublishVolumeForFileSystem E req mountOptions mode_Mount t \<noteq> (Some (status_Error Aborted), t')"
  by (auto simp: nodePublishVolumeForFileSystem_def call_def Let_def
      split: prod.splits option.splits sum.splits if_splits)

lemma NodePublishVolume_locked_not_Aborted:
  "fst (NodePublishVolume_locked E req volCap t) \<noteq> Inl (status_Error Aborted)"
  by (auto simp: NodePublishVolume_locked_def isAlreadyMounted_def call_def Let_def
      nodePublishVolumeForFileSystem_not_Aborted
      split: prod.splits option.splits sum.splits if_splits AccessType.splits)

lemma NodePublishVolume_Aborted_iff:
  assumes "publish_VolumeId req \<noteq> []" and "publish_TargetPath req \<noteq> []"
    and "publish_VolumeCapability req = Some volCap" and "isValidVolumeCapabilities E [volCap]"
  shows "fst (NodePublishVolume E req ns) = Inl (status_Error Aborted)
         \<longleftrightarrow> publish_VolumeId req \<in> volumeTransition ns"
  using assms NodePublishVolume_locked_not_Aborted [of E req volCap "trace ns"]
  by (auto simp: NodePublishVolume_def Let_def Insert_def split: prod.splits)

lemma NodeUnpublishVolume_Aborted_iff:
  assumes "unpublish_VolumeId req \<noteq> []" and "unpublish_TargetPath req \<noteq> []"
  shows "fst (NodeUnpublishVolume E req ns) = Inl (status_Error Aborted)
         \<longleftrightarrow> unpublish_VolumeId req \<in> volumeTransition ns"
  using assms
  by (auto simp: NodeUnpublishVolume_def unmount_def call_def Let_def Insert_def
      split: prod.splits option.splits if_splits)

text \<open>
  Claim C1. A stage request for the volume ID \<open>pvc-v1\<close> holds the guard under the key
  \<open>v1\<close>, the stripped ID. An unstage request for the same volume ID \<open>pvc-v1\<close> that
  arrives while the set holds \<open>v1\<close> asks for the key \<open>pvc-v1\<close>, is not answered with
  Aborted, and unmounts the staging path and disconnects the target.
\<close>

theorem unstage_passes_guard_held_by_stage:
  "validateStagingReq env_mounted_once (stage_req ''pvc-v1'' ''/staging/v1'')
      = Inr \<lparr>stagingPath = ''/staging/v1'', fsType = ''ext4'', volumeID = ''v1''\<rparr>
   \<and> Insert ''v1'' {} = (True, {''v1''})
   \<and> NodeUnstageVolume env_mounted_once (unstage_req ''pvc-v1'' ''/staging/v1'')
        \<lparr>volumeTransition = {''v1''}, trace = []\<rparr> =
      (Inr (), \<lparr>volumeTransition = {''v1''},
                trace = [Call_mounter_GetDeviceName ''/staging/v1'', Call_mounter_Unmount ''/staging/v1'',
                         Call_client_Set, Call_client_GetJivaVolume ''v1'',
                         Call_iscsi_Disconnect ''iqn.2016-09.com.openebs.jiva:v1'' [(''10.0.0.7'', 3260)],
                         Call_os_RemoveAll ''/staging/v1'']\<rparr>)"
  by (simp add: validateStagingReq_def unstage_eval common_eval env_examples)

text \<open>
  Claim C4. With \<open>StripName\<close> mapping \<open>pvc-v1\<close> to \<open>v1\<close>: the stage request for
  \<open>pvc-v1\<close> is aborted when the set holds \<open>v1\<close>; the unstage, publish and unpublish
  requests for \<open>pvc-v1\<close> pass when the set holds \<open>v1\<close> and are aborted when it holds
  \<open>pvc-v1\<close>. Their key is the volume ID as the request gives it.
\<close>

theorem lock_key_not_normalized:
  "StripName env_ok ''pvc-v1'' = ''v1''
   \<and> fst (NodeStageVolume env_ok (stage_req ''pvc-v1'' ''/staging/v1'')
            \<lparr>volumeTransition = {''v1''}, trace = []\<rparr>) = Inl (status_Error Aborted)
   \<and> fst (NodeUnstageVolume env_ok (unstage_req ''pvc-v1'' ''/staging/v1'')
            \<lparr>volumeTransition = {''v1''}, trace = []\<rparr>) = Inr ()
   \<and> fst (NodeUnstageVolume env_ok (unstage_req ''pvc-v1'' ''/staging/v1'')
            \<lparr>volumeTransition = {''pvc-v1''}, trace = []\<rparr>) = Inl (status_Error Aborted)
   \<and> fst (NodePublishVolume env_ok (publish_req ''pvc-v1'' ''/pods/a/v1'')
            \<lparr>volumeTransition = {''v1''}, trace = []\<rparr>) = Inr ()
   \<and> fst (NodePublishVolume env_ok (publish_req ''pvc-v1'' ''/pods/a/v1'')
            \<lparr>volumeTransition = {''pvc-v1''}, trace = []\<rparr>) = Inl (status_Error Aborted)
   \<and> fst (NodeUnpublishVolume env_ok (unpublish_req ''pvc-v1'' ''/pods/a/v1'')
            \<lparr>volumeTransition = {''v1''}, trace = []\<rparr>) = Inr ()
   \<and> fst (NodeUnpublishVolume env_ok (unpublish_req ''pvc-v1'' ''/pods/a/v1'')
            \<lparr>volumeTransition = {''pvc-v1''}, trace = []\<rparr>) = Inl (status_Error Aborted)"
  by (simp add: stage_eval unstage_eval unpublish_eval publish_eval common_eval env_examples)

end
